theory Spec2Isabelle
  imports Main "HOL-Library.Word" "HOL-Library.Multiset" "HOL-Library.Sublist"
begin

section \<open>Python values\<close>

text \<open>
  Two views of a Python \<open>str\<close>. Where the program encodes a string, the password, it
  is \<open>unicode\<close>, the list of its code points (numbers up to 10FFFF), lone surrogates
  and code points beyond 255 included. The other strings (header, token, stored hash, name, email, content) are
  \<open>str\<close>, lists of characters with code points below 256, one \<open>char\<close> per code
  point, so that \<open>length\<close> is Python's \<open>len\<close>. \<open>bytes\<close> is a list of octets. A
  \<open>datetime\<close> is a point on the UTC time line counted in microseconds, the resolution
  of Python's \<open>datetime\<close>. Every exception the source can raise is a value of \<open>exn\<close>.
\<close>

type_synonym str = string
type_synonym unicode = "nat list"
type_synonym bytes = "8 word list"
type_synonym datetime = int

datatype exn =
    ValueError
  | IndexError
  | AttributeError
  | InvalidId
  | UnicodeEncodeError
  | ValidationError
  | HTTPException (status_code: int) (detail: str)

definition timedelta_days :: "int \<Rightarrow> int" where
  "timedelta_days n = n * 86400000000"

text \<open>
  The store is a BSON document store: a datetime is held as a count of milliseconds, so
  what is written, and what a query compares with, is the datetime rounded down to the
  millisecond.
\<close>

definition bson_datetime :: "datetime \<Rightarrow> datetime" where
  "bson_datetime t = (t div 1000) * 1000"

definition unicode_of :: "str \<Rightarrow> unicode" where
  "unicode_of s = map of_char s"

text \<open>
  \<open>str.encode()\<close>: UTF-8, one to four octets for a code point; a surrogate, from D800 to
  DFFF, cannot be encoded and raises \<open>UnicodeEncodeError\<close>.
\<close>

definition is_surrogate :: "nat \<Rightarrow> bool" where
  "is_surrogate c = (55296 \<le> c \<and> c \<le> 57343)"

definition encode_char :: "nat \<Rightarrow> bytes option" where
  "encode_char c =
     (if c < 128 then Some [of_nat c]
      else if c < 2048 then Some [of_nat (192 + c div 64), of_nat (128 + c mod 64)]
      else if is_surrogate c then None
      else if c < 65536
      then Some [of_nat (224 + c div 4096), of_nat (128 + c div 64 mod 64),
                 of_nat (128 + c mod 64)]
      else Some [of_nat (240 + c div 262144), of_nat (128 + c div 4096 mod 64),
                 of_nat (128 + c div 64 mod 64), of_nat (128 + c mod 64)])"

fun encode :: "unicode \<Rightarrow> exn + bytes" where
  "encode [] = Inr []"
| "encode (c # cs) =
     (case encode_char c of
        None \<Rightarrow> Inl UnicodeEncodeError
      | Some b \<Rightarrow> (case encode cs of Inl e \<Rightarrow> Inl e | Inr bs \<Rightarrow> Inr (b @ bs)))"

text \<open>Lower-case hexadecimal rendering of octets (\<open>binascii.hexlify\<close>, \<open>hexdigest\<close>).\<close>

definition hex_digits :: str where
  "hex_digits = ''0123456789abcdef''"

definition hex_byte :: "8 word \<Rightarrow> str" where
  "hex_byte b = [hex_digits ! (unat b div 16), hex_digits ! (unat b mod 16)]"

definition hexlify :: "bytes \<Rightarrow> str" where
  "hexlify bs = concat (map hex_byte bs)"

text \<open>
  \<open>s.split(sep)\<close> for a separator of one character: the pieces between the occurrences of
  the separator, one more piece than there are occurrences.
\<close>

fun split :: "char \<Rightarrow> str \<Rightarrow> str list" where
  "split sep [] = [[]]"
| "split sep (c # cs) =
     (if c = sep then [] # split sep cs
      else (case split sep cs of [] \<Rightarrow> [[c]] | p # ps \<Rightarrow> (c # p) # ps))"

section \<open>Credential hasher\<close>

text \<open>
  \<open>secrets.token_hex(16)\<close> renders the octets drawn from the random source in
  hexadecimal; the octets drawn are the argument \<open>rnd\<close>. SHA-256 belongs to \<open>hashlib\<close>:
  the digest function is the parameter \<open>sha256\<close>, from octets to the octets of the digest,
  and \<open>hexdigest\<close> renders them.
\<close>

definition token_hex :: "bytes \<Rightarrow> str" where
  "token_hex rnd = hexlify rnd"

definition hexdigest :: "(bytes \<Rightarrow> bytes) \<Rightarrow> bytes \<Rightarrow> str" where
  "hexdigest sha256 msg = hexlify (sha256 msg)"

definition hash_password :: "(bytes \<Rightarrow> bytes) \<Rightarrow> bytes \<Rightarrow> unicode \<Rightarrow> exn + str" where
  "hash_password sha256 rnd password =
     (let salt = token_hex rnd
      in case encode (unicode_of salt @ password) of
           Inl e \<Rightarrow> Inl e
         | Inr msg \<Rightarrow> Inr (salt @ ''$'' @ hexdigest sha256 msg))"

text \<open>
  The body of the \<open>try\<close> block of \<open>verify_password\<close>: unpacking the result of \<open>split\<close>
  into two names raises \<open>ValueError\<close> unless there are exactly two pieces, and the
  encoding raises on a surrogate. The handler of \<open>verify_password\<close> catches every
  exception.
\<close>

definition verify_password_try :: "(bytes \<Rightarrow> bytes) \<Rightarrow> unicode \<Rightarrow> str \<Rightarrow> exn + bool" where
  "verify_password_try sha256 password stored_hash =
     (case split CHR ''$'' stored_hash of
        [salt, hashed] \<Rightarrow>
          (case encode (unicode_of salt @ password) of
             Inl e \<Rightarrow> Inl e
           | Inr msg \<Rightarrow> Inr (hexdigest sha256 msg = hashed))
      | _ \<Rightarrow> Inl ValueError)"

definition verify_password :: "(bytes \<Rightarrow> bytes) \<Rightarrow> unicode \<Rightarrow> str \<Rightarrow> bool" where
  "verify_password sha256 password stored_hash =
     (case verify_password_try sha256 password stored_hash of
        Inr b \<Rightarrow> b
      | Inl _ \<Rightarrow> False)"

section \<open>Strings and identifiers\<close>

text \<open>
  \<open>str.lower()\<close> on the code points below 256: the letters A to Z and the accented
  capitals from 192 to 222 (the multiplication sign 215 apart) move up by 32, every other
  character stays.
\<close>

definition lower_char :: "char \<Rightarrow> char" where
  "lower_char c =
     (let n = (of_char c :: nat)
      in if (65 \<le> n \<and> n \<le> 90) \<or> (192 \<le> n \<and> n \<le> 222 \<and> n \<noteq> 215)
         then char_of (n + 32) else c)"

definition lower :: "str \<Rightarrow> str" where
  "lower s = map lower_char s"

definition startswith :: "str \<Rightarrow> str \<Rightarrow> bool" where
  "startswith s p = prefix p s"

text \<open>
  \<open>s.split(sep, 1)\<close>: at most one split, at the first occurrence of the separator; and
  the subscript \<open>[1]\<close> on the result, which raises \<open>IndexError\<close> on a list of one piece.
\<close>

definition split1 :: "char \<Rightarrow> str \<Rightarrow> str list" where
  "split1 sep s =
     (if sep \<in> set s
      then [takeWhile (\<lambda>c. c \<noteq> sep) s, tl (dropWhile (\<lambda>c. c \<noteq> sep) s)]
      else [s])"

definition subscript1 :: "'a list \<Rightarrow> exn + 'a" where
  "subscript1 xs = (case xs of _ # x # _ \<Rightarrow> Inr x | _ \<Rightarrow> Inl IndexError)"

text \<open>
  \<open>bytes.fromhex\<close>: pairs of hexadecimal digits of either case, with ASCII whitespace
  skipped before a pair and at the end; anything else raises, which is \<open>None\<close> here.
\<close>

definition hexval :: "char \<Rightarrow> nat option" where
  "hexval c =
     (if c \<in> set ''0123456789'' then Some (of_char c - 48)
      else if c \<in> set ''abcdef'' then Some (of_char c - 87)
      else if c \<in> set ''ABCDEF'' then Some (of_char c - 55)
      else None)"

definition is_space :: "char \<Rightarrow> bool" where
  "is_space c = (c \<in> set [CHR '' '', CHR 0x09, CHR 0x0A, CHR 0x0B, CHR 0x0C, CHR 0x0D])"

fun fromhex :: "str \<Rightarrow> bytes option" where
  "fromhex [] = Some []"
| "fromhex (c # cs) =
     (if is_space c then fromhex cs
      else (case cs of
              [] \<Rightarrow> None
            | d # ds \<Rightarrow>
                (case (hexval c, hexval d) of
                   (Some h, Some l) \<Rightarrow>
                     (case fromhex ds of
                        None \<Rightarrow> None
                      | Some bs \<Rightarrow> Some (of_nat (16 * h + l) # bs))
                 | _ \<Rightarrow> None)))"

text \<open>
  An \<open>ObjectId\<close> that the store generates and holds as the \<open>_id\<close> of a document is
  twelve octets; \<open>binary\<close> gives them and \<open>str\<close> renders them as 24 lower-case
  hexadecimal digits. \<open>ObjectId(s)\<close> accepts a string of 24 characters that
  \<open>bytes.fromhex\<close> accepts and raises \<open>InvalidId\<close> on the others;
  \<open>ObjectId.is_valid\<close> tells which. What a query by \<open>_id\<close> compares are the octets.
\<close>

datatype ObjectId =
  Oid "8 word" "8 word" "8 word" "8 word" "8 word" "8 word"
      "8 word" "8 word" "8 word" "8 word" "8 word" "8 word"

fun binary :: "ObjectId \<Rightarrow> bytes" where
  "binary (Oid b0 b1 b2 b3 b4 b5 b6 b7 b8 b9 b10 b11) =
     [b0, b1, b2, b3, b4, b5, b6, b7, b8, b9, b10, b11]"

definition ObjectId :: "str \<Rightarrow> exn + bytes" where
  "ObjectId s =
     (if length s = 24
      then (case fromhex s of Some bs \<Rightarrow> Inr bs | None \<Rightarrow> Inl InvalidId)
      else Inl InvalidId)"

definition ObjectId_is_valid :: "str \<Rightarrow> bool" where
  "ObjectId_is_valid s = (case ObjectId s of Inr _ \<Rightarrow> True | Inl _ \<Rightarrow> False)"

text \<open>\<open>ObjectId(s) if ObjectId.is_valid(s) else None\<close>, the guarded form the source uses.\<close>

definition ObjectId_if_valid :: "str \<Rightarrow> bytes option" where
  "ObjectId_if_valid s =
     (if ObjectId_is_valid s
      then (case ObjectId s of Inr bs \<Rightarrow> Some bs | Inl _ \<Rightarrow> None)
      else None)"

definition str_of_ObjectId :: "ObjectId \<Rightarrow> str" where
  "str_of_ObjectId i = hexlify (binary i)"

section \<open>Schemas\<close>

text \<open>
  The pydantic models of \<open>schemas.py\<close> and of the request and response classes. The
  only field constraint the application's models carry is the length of the content of a
  \<open>ChatMessage\<close>; constructing one outside it raises a validation error. Email
  addresses reach the models already validated by the request model.
\<close>

record AuthUser =
  name :: str
  email :: str
  password_hash :: str
  u_created_at :: "datetime option"
  u_updated_at :: "datetime option"

record Session =
  user_id :: str
  token :: str
  expires_at :: datetime
  s_created_at :: "datetime option"
  s_updated_at :: "datetime option"

record ChatMessage =
  m_user_id :: str
  content :: str
  m_created_at :: "datetime option"
  m_updated_at :: "datetime option"

definition new_AuthUser :: "str \<Rightarrow> str \<Rightarrow> str \<Rightarrow> AuthUser" where
  "new_AuthUser n e h =
     \<lparr>name = n, email = e, password_hash = h, u_created_at = None, u_updated_at = None\<rparr>"

definition new_Session :: "str \<Rightarrow> str \<Rightarrow> datetime \<Rightarrow> Session" where
  "new_Session uid tok expires =
     \<lparr>user_id = uid, token = tok, expires_at = expires,
      s_created_at = None, s_updated_at = None\<rparr>"

definition new_ChatMessage :: "str \<Rightarrow> str \<Rightarrow> exn + ChatMessage" where
  "new_ChatMessage uid c =
     (if length c < 1 then Inl ValidationError
      else if length c > 2000 then Inl ValidationError
      else Inr \<lparr>m_user_id = uid, content = c, m_created_at = None, m_updated_at = None\<rparr>)"

record RegisterRequest =
  rq_name :: str
  rq_email :: str
  rq_password :: unicode

record LoginRequest =
  lq_email :: str
  lq_password :: unicode

record LoginResponse =
  lr_token :: str
  lr_name :: str
  lr_email :: str

record ChatPostRequest =
  pq_content :: str

record ChatMessageResponse =
  r_id :: str
  r_user_name :: str
  r_content :: str
  r_created_at :: datetime

section \<open>The document store\<close>

text \<open>
  Modelled from the spec: the module \<open>database\<close> (the handle \<open>db\<close> and the helper
  \<open>create_document\<close>) is not among the sources. The spec describes a document store with
  the collections authuser, session and chatmessage, identifiers generated by the store,
  and a helper that stamps \<open>created_at\<close> and \<open>updated_at\<close>, inserts the document and
  returns the new identifier. A collection is the list of its documents in insertion
  order; \<open>find_one\<close> returns the first document that matches. The handle \<open>db\<close> is
  \<open>None\<close> when no database is configured. The source imports \<open>bson\<close>: the store
  holds BSON documents, whose datetimes are counts of milliseconds. Every stored document carries all the fields
  of its schema and both stamps, so the defaults that the source passes to \<open>.get\<close> are
  never taken.
\<close>

record authuser_doc =
  au_id :: ObjectId
  au_name :: str
  au_email :: str
  au_password_hash :: str
  au_created_at :: datetime
  au_updated_at :: datetime

record session_doc =
  sd_id :: ObjectId
  sd_user_id :: str
  sd_token :: str
  sd_expires_at :: datetime
  sd_created_at :: datetime
  sd_updated_at :: datetime

record chatmessage_doc =
  cm_id :: ObjectId
  cm_user_id :: str
  cm_content :: str
  cm_created_at :: datetime
  cm_updated_at :: datetime

record database =
  authuser :: "authuser_doc list"
  session :: "session_doc list"
  chatmessage :: "chatmessage_doc list"

definition find_one :: "('a \<Rightarrow> bool) \<Rightarrow> 'a list \<Rightarrow> 'a option" where
  "find_one P docs = find P docs"

text \<open>
  Modelled from the spec: \<open>create_document\<close> of the module \<open>database\<close>, which is
  not among the sources. It stamps \<open>created_at\<close> and \<open>updated_at\<close>, inserts the
  document at the end of its collection and returns the new identifier as a string;
  there is one instance for each collection. Every datetime of the document is written
  rounded down to the millisecond. \<open>doc_env\<close> is what one call obtains from
  outside: the identifier the store generates and the reading of the clock used for the
  stamps.
\<close>

record doc_env =
  inserted_id :: ObjectId
  stamp :: datetime

definition create_document_authuser :: "doc_env \<Rightarrow> AuthUser \<Rightarrow> database \<Rightarrow> str \<times> database" where
  "create_document_authuser env data d =
     (let doc = \<lparr>au_id = inserted_id env, au_name = name data, au_email = email data,
                 au_password_hash = password_hash data,
                 au_created_at = bson_datetime (stamp env),
                 au_updated_at = bson_datetime (stamp env)\<rparr>
      in (str_of_ObjectId (inserted_id env), d\<lparr>authuser := authuser d @ [doc]\<rparr>))"

definition create_document_session :: "doc_env \<Rightarrow> Session \<Rightarrow> database \<Rightarrow> str \<times> database" where
  "create_document_session env data d =
     (let doc = \<lparr>sd_id = inserted_id env, sd_user_id = user_id data, sd_token = token data,
                 sd_expires_at = bson_datetime (expires_at data),
                 sd_created_at = bson_datetime (stamp env),
                 sd_updated_at = bson_datetime (stamp env)\<rparr>
      in (str_of_ObjectId (inserted_id env), d\<lparr>session := session d @ [doc]\<rparr>))"

definition create_document_chatmessage :: "doc_env \<Rightarrow> ChatMessage \<Rightarrow> database \<Rightarrow> str \<times> database" where
  "create_document_chatmessage env data d =
     (let doc = \<lparr>cm_id = inserted_id env, cm_user_id = m_user_id data,
                 cm_content = content data,
                 cm_created_at = bson_datetime (stamp env),
                 cm_updated_at = bson_datetime (stamp env)\<rparr>
      in (str_of_ObjectId (inserted_id env), d\<lparr>chatmessage := chatmessage d @ [doc]\<rparr>))"

section \<open>Session store\<close>

text \<open>
  What \<open>create_session\<close> obtains from outside: the token drawn by
  \<open>secrets.token_urlsafe(32)\<close>, the reading of the clock for the expiry, and what its
  call of \<open>create_document\<close> obtains.
\<close>

record session_env =
  token_urlsafe :: str
  now :: datetime
  session_doc_env :: doc_env

definition create_session :: "session_env \<Rightarrow> str \<Rightarrow> database \<Rightarrow> str \<times> database" where
  "create_session env uid d =
     (let tok = token_urlsafe env;
          expires = now env + timedelta_days 7;
          sess = new_Session uid tok expires;
          (_, d') = create_document_session (session_doc_env env) sess d
      in (tok, d'))"

text \<open>
  The argument \<open>t\<close> is the reading of the clock in the query; the query carries it as
  a BSON datetime.
\<close>

definition get_user_by_token :: "database option \<Rightarrow> datetime \<Rightarrow> str \<Rightarrow> authuser_doc option" where
  "get_user_by_token db t tok =
     (case db of
        None \<Rightarrow> None
      | Some d \<Rightarrow>
          (case find_one (\<lambda>s. sd_token s = tok \<and> sd_expires_at s > bson_datetime t)
                  (session d) of
             None \<Rightarrow> None
           | Some sess \<Rightarrow>
               (case ObjectId_if_valid (sd_user_id sess) of
                  Some i \<Rightarrow> find_one (\<lambda>u. binary (au_id u) = i) (authuser d)
                | None \<Rightarrow> None)))"

section \<open>Auth gateway\<close>

text \<open>
  An endpoint takes the handle \<open>db\<close> and returns its result, a response or the exception
  raised, together with the handle after the request.
\<close>

record register_env =
  token_bytes :: bytes
  user_doc_env :: doc_env
  register_session_env :: session_env

definition register ::
  "(bytes \<Rightarrow> bytes) \<Rightarrow> register_env \<Rightarrow> RegisterRequest \<Rightarrow> database option
     \<Rightarrow> (exn + LoginResponse) \<times> database option" where
  "register sha256 env payload db =
     (case db of
        None \<Rightarrow> (Inl (HTTPException 500 ''Database not configured''), db)
      | Some d \<Rightarrow>
          (case find_one (\<lambda>u. au_email u = rq_email payload) (authuser d) of
             Some existing \<Rightarrow> (Inl (HTTPException 400 ''Email already registered''), db)
           | None \<Rightarrow>
               (case hash_password sha256 (token_bytes env) (rq_password payload) of
                  Inl e \<Rightarrow> (Inl e, db)
                | Inr h \<Rightarrow>
                    (let user = new_AuthUser (rq_name payload) (rq_email payload) h;
                         (uid, d1) = create_document_authuser (user_doc_env env) user d;
                         (tok, d2) = create_session (register_session_env env) uid d1
                     in (Inr \<lparr>lr_token = tok, lr_name = name user, lr_email = email user\<rparr>,
                         Some d2)))))"

definition login ::
  "(bytes \<Rightarrow> bytes) \<Rightarrow> session_env \<Rightarrow> LoginRequest \<Rightarrow> database option
     \<Rightarrow> (exn + LoginResponse) \<times> database option" where
  "login sha256 env payload db =
     (case db of
        None \<Rightarrow> (Inl (HTTPException 500 ''Database not configured''), db)
      | Some d \<Rightarrow>
          (case find_one (\<lambda>u. au_email u = lq_email payload) (authuser d) of
             None \<Rightarrow> (Inl (HTTPException 401 ''Invalid credentials''), db)
           | Some user \<Rightarrow>
               if \<not> verify_password sha256 (lq_password payload) (au_password_hash user)
               then (Inl (HTTPException 401 ''Invalid credentials''), db)
               else
                 (let (tok, d') = create_session env (str_of_ObjectId (au_id user)) d
                  in (Inr \<lparr>lr_token = tok, lr_name = au_name user, lr_email = au_email user\<rparr>,
                      Some d'))))"

text \<open>
  \<open>not authorization\<close> holds of the absent header and of the empty string. The
  argument \<open>t\<close> is the reading of the clock in the session lookup.
\<close>

definition get_current_user ::
  "database option \<Rightarrow> datetime \<Rightarrow> str option \<Rightarrow> exn + authuser_doc" where
  "get_current_user db t authorization =
     (case authorization of
        None \<Rightarrow> Inl (HTTPException 401 ''Missing Authorization header'')
      | Some a \<Rightarrow>
          if a = [] then Inl (HTTPException 401 ''Missing Authorization header'')
          else if \<not> startswith (lower a) ''bearer ''
          then Inl (HTTPException 401 ''Invalid Authorization header'')
          else
            (case subscript1 (split1 CHR '' '' a) of
               Inl e \<Rightarrow> Inl e
             | Inr tok \<Rightarrow>
                 (case get_user_by_token db t tok of
                    None \<Rightarrow> Inl (HTTPException 401 ''Invalid or expired token'')
                  | Some user \<Rightarrow> Inr user)))"

section \<open>Chat feed\<close>

text \<open>
  The view of one message built in the loop of \<open>list_messages\<close>: the author is looked
  up by the message's \<open>user_id\<close> when that is a valid identifier.
\<close>

definition message_view :: "database \<Rightarrow> chatmessage_doc \<Rightarrow> ChatMessageResponse" where
  "message_view d m =
     (let u = (case ObjectId_if_valid (cm_user_id m) of
                 Some i \<Rightarrow> find_one (\<lambda>u. binary (au_id u) = i) (authuser d)
               | None \<Rightarrow> None)
      in \<lparr>r_id = str_of_ObjectId (cm_id m),
          r_user_name = (case u of Some u' \<Rightarrow> au_name u' | None \<Rightarrow> ''Unknown''),
          r_content = cm_content m,
          r_created_at = cm_created_at m\<rparr>)"

text \<open>
  The order of the cursor, \<open>sort("created_at", -1)\<close>, belongs to the store, which leaves
  the order among documents with equal keys open: the sort is the parameter
  \<open>sort_desc\<close>. \<open>sorts_desc\<close> says what a sort by creation time, latest first, does to
  one list, and \<open>stable_sort_desc\<close> is one such sort. The dependency
  \<open>get_current_user\<close> runs before the body of an endpoint.
\<close>

definition sorts_desc ::
  "(chatmessage_doc list \<Rightarrow> chatmessage_doc list) \<Rightarrow> chatmessage_doc list \<Rightarrow> bool" where
  "sorts_desc sort_desc ms =
     (mset (sort_desc ms) = mset ms
      \<and> sorted_wrt (\<lambda>a b. cm_created_at a \<ge> cm_created_at b) (sort_desc ms))"

definition stable_sort_desc :: "chatmessage_doc list \<Rightarrow> chatmessage_doc list" where
  "stable_sort_desc ms = sort_key (\<lambda>m. - cm_created_at m) ms"

definition list_messages ::
  "(chatmessage_doc list \<Rightarrow> chatmessage_doc list) \<Rightarrow> datetime \<Rightarrow> str option
     \<Rightarrow> database option \<Rightarrow> exn + ChatMessageResponse list" where
  "list_messages sort_desc t authorization db =
     (case get_current_user db t authorization of
        Inl e \<Rightarrow> Inl e
      | Inr user \<Rightarrow>
          (case db of
             None \<Rightarrow> Inl (HTTPException 500 ''Database not configured'')
           | Some d \<Rightarrow>
               (let msgs = take 50 (sort_desc (chatmessage d));
                    result = map (message_view d) msgs
                in Inr (rev result))))"

definition post_message ::
  "datetime \<Rightarrow> doc_env \<Rightarrow> ChatPostRequest \<Rightarrow> str option \<Rightarrow> database option
     \<Rightarrow> (exn + ChatMessageResponse) \<times> database option" where
  "post_message t env payload authorization db =
     (case get_current_user db t authorization of
        Inl e \<Rightarrow> (Inl e, db)
      | Inr user \<Rightarrow>
          (case db of
             None \<Rightarrow> (Inl (HTTPException 500 ''Database not configured''), db)
           | Some d \<Rightarrow>
               (case new_ChatMessage (str_of_ObjectId (au_id user)) (pq_content payload) of
                  Inl e \<Rightarrow> (Inl e, db)
                | Inr msg \<Rightarrow>
                    (let (msg_id, d') = create_document_chatmessage env msg d
                     in case ObjectId msg_id of
                          Inl e \<Rightarrow> (Inl e, Some d')
                        | Inr i \<Rightarrow>
                            (case find_one (\<lambda>m. binary (cm_id m) = i) (chatmessage d') of
                               None \<Rightarrow> (Inl AttributeError, Some d')
                             | Some saved \<Rightarrow>
                                 (Inr \<lparr>r_id = msg_id, r_user_name = au_name user,
                                       r_content = cm_content saved,
                                       r_created_at = cm_created_at saved\<rparr>,
                                  Some d'))))))"

section \<open>A small store\<close>

text \<open>
  One user with one session, and the same store with three messages, two of them by
  authors whose records are missing; what a registration, a login and a post draw from
  the environment, with a post stamped in the millisecond of the latest stored message
  and one stamped before it. The definitions are run on these inputs.
\<close>

definition alice_id :: ObjectId where
  "alice_id = Oid 1 35 69 103 137 171 205 239 1 35 69 103"

definition alice :: authuser_doc where
  "alice = \<lparr>au_id = alice_id, au_name = ''Alice'',
             au_email = ''a@x.com'', au_password_hash = ''00$30307077'',
             au_created_at = 10000, au_updated_at = 10000\<rparr>"

definition alice_session :: session_doc where
  "alice_session = \<lparr>sd_id = Oid 1 35 69 103 137 171 205 239 1 35 69 104,
                     sd_user_id = ''0123456789abcdef01234567'', sd_token = ''tokA'',
                     sd_expires_at = 1000000, sd_created_at = 20000,
                     sd_updated_at = 20000\<rparr>"

definition example_db :: database where
  "example_db = \<lparr>authuser = [alice], session = [alice_session], chatmessage = []\<rparr>"

definition example_session_env :: session_env where
  "example_session_env =
     \<lparr>token_urlsafe = ''tokB'', now = 100,
      session_doc_env =
        \<lparr>inserted_id = Oid 1 35 69 103 137 171 205 239 1 35 69 105, stamp = 101\<rparr>\<rparr>"

definition example_register_env :: register_env where
  "example_register_env =
     \<lparr>token_bytes = [171, 205],
      user_doc_env =
        \<lparr>inserted_id = Oid 1 35 69 103 137 171 205 239 1 35 69 106, stamp = 99\<rparr>,
      register_session_env = example_session_env\<rparr>"

definition example_chat_db :: database where
  "example_chat_db =
     example_db\<lparr>chatmessage :=
       [\<lparr>cm_id = Oid 1 35 69 103 137 171 205 239 1 35 69 112,
         cm_user_id = ''0123456789ABCDEF01234567'',
         cm_content = ''first'', cm_created_at = 30000, cm_updated_at = 30000\<rparr>,
        \<lparr>cm_id = Oid 1 35 69 103 137 171 205 239 1 35 69 113, cm_user_id = ''gone'',
         cm_content = ''third'', cm_created_at = 50000, cm_updated_at = 50000\<rparr>,
        \<lparr>cm_id = Oid 1 35 69 103 137 171 205 239 1 35 69 114,
         cm_user_id = ''0123456789abcdef01234599'',
         cm_content = ''second'', cm_created_at = 40000, cm_updated_at = 40000\<rparr>]\<rparr>"

definition example_post_env :: doc_env where
  "example_post_env =
     \<lparr>inserted_id = Oid 1 35 69 103 137 171 205 239 1 35 69 127, stamp = 60400\<rparr>"

definition tied_post_env :: doc_env where
  "tied_post_env =
     \<lparr>inserted_id = Oid 1 35 69 103 137 171 205 239 1 35 69 127, stamp = 50400\<rparr>"

definition early_post_env :: doc_env where
  "early_post_env =
     \<lparr>inserted_id = Oid 1 35 69 103 137 171 205 239 1 35 69 127, stamp = 35000\<rparr>"

definition example_post :: ChatPostRequest where
  "example_post = \<lparr>pq_content = ''hi''\<rparr>"

section \<open>Splitting and hexadecimal strings\<close>

lemma split_not_Nil: "split sep s \<noteq> []"
  by (induction s) (auto split: list.splits)

lemma length_split: "length (split sep s) = Suc (count_list s sep)"
proof (induction s)
  case Nil
  show ?case by simp
next
  case (Cons c cs)
  then show ?case by (cases "split sep cs") auto
qed

lemma split_no_sep: "sep \<notin> set s \<Longrightarrow> split sep s = [s]"
  by (induction s) auto

lemma split_append_sep:
  "sep \<notin> set a \<Longrightarrow> split sep (a @ sep # b) = a # split sep b"
  by (induction a) auto

lemma split_two_pieces:
  "split sep s = [a, b] \<Longrightarrow> s = a @ sep # b \<and> sep \<notin> set a \<and> sep \<notin> set b"
proof (induction s arbitrary: a)
  case Nil
  then show ?case by simp
next
  case (Cons c cs)
  show ?case
  proof (cases "c = sep")
    case True
    with Cons.prems have a: "a = []" and b: "split sep cs = [b]" by auto
    have "count_list cs sep = 0"
      using length_split [of sep cs] b by simp
    then have "sep \<notin> set cs" by (simp add: count_list_0_iff)
    moreover from this b have "cs = b" by (simp add: split_no_sep)
    ultimately show ?thesis using True a by simp
  next
    case False
    with Cons.prems obtain p where p: "split sep cs = [p, b]" and a: "a = c # p"
      by (auto split: list.splits)
    from Cons.IH [OF p] False a show ?thesis by simp
  qed
qed

lemma dollar_notin_hex_byte: "CHR ''$'' \<notin> set (hex_byte b)"
proof -
  have "unat b < 2 ^ 8" using unsigned_less [of b, where ?'a = nat] by simp
  then have hi: "unat b div 16 < length hex_digits"
    by (simp add: hex_digits_def)
  have lo: "unat b mod 16 < length hex_digits"
    by (simp add: hex_digits_def)
  have "CHR ''$'' \<notin> set hex_digits"
    by (simp add: hex_digits_def)
  with nth_mem [OF hi] nth_mem [OF lo] show ?thesis
    by (auto simp: hex_byte_def)
qed

lemma dollar_notin_hexlify: "CHR ''$'' \<notin> set (hexlify bs)"
  by (induction bs) (simp_all add: hexlify_def dollar_notin_hex_byte)

section \<open>Encoding\<close>

lemma encode_char_None_iff: "encode_char c = None \<longleftrightarrow> is_surrogate c"
  by (simp add: encode_char_def is_surrogate_def)

lemma encode_append:
  "encode (a @ b) =
     (case encode a of
        Inl e \<Rightarrow> Inl e
      | Inr x \<Rightarrow> (case encode b of Inl e \<Rightarrow> Inl e | Inr y \<Rightarrow> Inr (x @ y)))"
  by (induction a) (simp_all split: option.splits sum.splits)

lemma encode_surrogate:
  "\<exists>c \<in> set u. is_surrogate c \<Longrightarrow> encode u = Inl UnicodeEncodeError"
proof (induction u)
  case Nil
  then show ?case by simp
next
  case (Cons c cs)
  show ?case
  proof (cases "is_surrogate c")
    case True
    then have "encode_char c = None" by (simp only: encode_char_None_iff)
    then show ?thesis by simp
  next
    case False
    with Cons.prems have "\<exists>x \<in> set cs. is_surrogate x" by simp
    with Cons.IH show ?thesis by (simp split: option.splits)
  qed
qed

lemma encode_no_surrogate:
  "\<forall>c \<in> set u. \<not> is_surrogate c \<Longrightarrow> \<exists>bs. encode u = Inr bs"
proof (induction u)
  case Nil
  show ?case by simp
next
  case (Cons c cs)
  then obtain bs where "encode cs = Inr bs" by auto
  moreover from Cons.prems obtain b where "encode_char c = Some b"
    using encode_char_None_iff [of c] by auto
  ultimately show ?case by simp
qed

lemma unicode_of_no_surrogate: "\<forall>c \<in> set (unicode_of s). \<not> is_surrogate c"
proof
  fix c assume "c \<in> set (unicode_of s)"
  then obtain x where "c = of_char x" by (auto simp: unicode_of_def)
  moreover have "(of_char x :: nat) < 256" by simp
  ultimately show "\<not> is_surrogate c" unfolding is_surrogate_def by linarith
qed

lemma encode_salted_surrogate:
  "\<exists>c \<in> set p. is_surrogate c \<Longrightarrow> encode (unicode_of s @ p) = Inl UnicodeEncodeError"
  by (rule encode_surrogate) auto

lemma encode_salted_no_surrogate:
  "\<forall>c \<in> set p. \<not> is_surrogate c \<Longrightarrow> \<exists>msg. encode (unicode_of s @ p) = Inr msg"
  using unicode_of_no_surrogate [of s] by (intro encode_no_surrogate) auto

section \<open>Properties of the credential hasher\<close>

lemma split_salt_digest:
  "split CHR ''$'' (token_hex rnd @ CHR ''$'' # hexdigest sha256 msg)
     = [token_hex rnd, hexdigest sha256 msg]"
proof -
  have salt: "CHR ''$'' \<notin> set (token_hex rnd)"
    by (simp add: token_hex_def dollar_notin_hexlify)
  have hashed: "CHR ''$'' \<notin> set (hexdigest sha256 msg)"
    by (simp add: hexdigest_def dollar_notin_hexlify)
  show ?thesis
    using split_append_sep [OF salt] split_no_sep [OF hashed] by simp
qed

lemma hash_password_encoded:
  assumes "encode (unicode_of (token_hex rnd) @ p) = Inr msg"
  shows "hash_password sha256 rnd p = Inr (token_hex rnd @ ''$'' @ hexdigest sha256 msg)"
    and "verify_password sha256 p (token_hex rnd @ ''$'' @ hexdigest sha256 msg)"
  using assms
  by (simp_all add: hash_password_def Let_def verify_password_def verify_password_try_def
      split_salt_digest)

lemma hash_password_surrogate:
  "\<exists>c \<in> set p. is_surrogate c \<Longrightarrow> hash_password sha256 rnd p = Inl UnicodeEncodeError"
  by (simp add: hash_password_def Let_def encode_salted_surrogate)

lemma verify_of_hash:
  assumes "\<forall>c \<in> set p. \<not> is_surrogate c"
  shows "\<exists>h. hash_password sha256 rnd p = Inr h \<and> verify_password sha256 p h"
proof -
  from encode_salted_no_surrogate [OF assms] obtain msg
    where "encode (unicode_of (token_hex rnd) @ p) = Inr msg" by blast
  from hash_password_encoded [OF this] show ?thesis by blast
qed

text \<open>
  Claim C1, amended. For every password that has no surrogate among its code points,
  whatever octets the random source yields for the salt and whatever the digest function
  is, \<open>hash_password\<close> returns a string, the hexadecimal salt, a dollar sign and the
  hexadecimal digest of the encoded salt and password, which the split gives back as
  exactly these two, and verifying the password against it returns true. For a password
  with a surrogate \<open>hash_password\<close> raises \<open>UnicodeEncodeError\<close>.
\<close>

theorem verify_hash_password:
  "((\<forall>c \<in> set p. \<not> is_surrogate c) \<longrightarrow>
      (\<exists>h msg. hash_password sha256 rnd p = Inr h
         \<and> verify_password sha256 p h = True
         \<and> encode (unicode_of (token_hex rnd) @ p) = Inr msg
         \<and> split CHR ''$'' h = [token_hex rnd, hexdigest sha256 msg]))
   \<and> ((\<exists>c \<in> set p. is_surrogate c) \<longrightarrow>
        hash_password sha256 rnd p = Inl UnicodeEncodeError)"
proof (intro conjI impI)
  assume "\<forall>c \<in> set p. \<not> is_surrogate c"
  from encode_salted_no_surrogate [OF this] obtain msg
    where e: "encode (unicode_of (token_hex rnd) @ p) = Inr msg" by blast
  from hash_password_encoded [OF e, of sha256] e split_salt_digest [of rnd sha256 msg]
  show "\<exists>h msg. hash_password sha256 rnd p = Inr h
         \<and> verify_password sha256 p h = True
         \<and> encode (unicode_of (token_hex rnd) @ p) = Inr msg
         \<and> split CHR ''$'' h = [token_hex rnd, hexdigest sha256 msg]"
    by simp
next
  assume "\<exists>c \<in> set p. is_surrogate c"
  then show "hash_password sha256 rnd p = Inl UnicodeEncodeError"
    by (rule hash_password_surrogate)
qed

theorem verify_hash_password_witness:
  "\<exists>h. hash_password (\<lambda>m. m) [171, 205] [112, 119, 8364] = Inr h
       \<and> verify_password (\<lambda>m. m) [112, 119, 8364] h = True"
proof -
  have "\<forall>c \<in> set [112, 119, 8364 :: nat]. \<not> is_surrogate c"
    by (simp add: is_surrogate_def)
  with verify_hash_password [of "[112, 119, 8364]" "\<lambda>m. m" "[171, 205]"] show ?thesis
    by blast
qed

text \<open>
  Claim C1 as stated fails at the password whose only code point is the surrogate D800,
  a string that Python holds and a JSON body delivers: \<open>hash_password\<close> raises, so there
  is no stored value to verify.
\<close>

theorem surrogate_password_counterexample:
  "hash_password (\<lambda>m. m) [171, 205] [55296] = Inl UnicodeEncodeError"
  by (rule hash_password_surrogate) (simp add: is_surrogate_def)

text \<open>
  Claim C9. \<open>verify_password\<close> never raises: its result is a boolean for every password
  and every stored string. When the stored string does not contain exactly one dollar
  sign, the unpacking inside the \<open>try\<close> block raises \<open>ValueError\<close>, the handler catches it
  and the result is false; a password that cannot be encoded gives false as well. In
  general the result is true exactly when the stored string is a salt, one dollar sign
  and a digest, with no further dollar sign, such that salt and password can be encoded
  and the digest recomputed from them is the stored digest; it is false otherwise.
\<close>

theorem verify_password_total:
  "(count_list stored_hash CHR ''$'' \<noteq> 1 \<longrightarrow>
      verify_password_try sha256 p stored_hash = Inl ValueError
      \<and> verify_password sha256 p stored_hash = False)
   \<and> ((\<exists>c \<in> set p. is_surrogate c) \<longrightarrow> verify_password sha256 p stored_hash = False)
   \<and> (verify_password sha256 p stored_hash =
        (\<exists>salt hashed msg. stored_hash = salt @ ''$'' @ hashed
           \<and> CHR ''$'' \<notin> set salt \<and> CHR ''$'' \<notin> set hashed
           \<and> encode (unicode_of salt @ p) = Inr msg
           \<and> hexdigest sha256 msg = hashed))"
proof -
  have char: "verify_password sha256 p stored_hash =
        (\<exists>salt hashed msg. stored_hash = salt @ ''$'' @ hashed
           \<and> CHR ''$'' \<notin> set salt \<and> CHR ''$'' \<notin> set hashed
           \<and> encode (unicode_of salt @ p) = Inr msg
           \<and> hexdigest sha256 msg = hashed)"
    (is "?l = ?r")
  proof
    assume ?l
    then obtain salt hashed msg where sp: "split CHR ''$'' stored_hash = [salt, hashed]"
      and en: "encode (unicode_of salt @ p) = Inr msg"
      and eq: "hexdigest sha256 msg = hashed"
      by (auto simp: verify_password_def verify_password_try_def
          split: list.splits sum.splits)
    from split_two_pieces [OF sp] en eq show ?r by auto
  next
    assume ?r
    then obtain salt hashed msg where s: "stored_hash = salt @ CHR ''$'' # hashed"
      and a: "CHR ''$'' \<notin> set salt" and b: "CHR ''$'' \<notin> set hashed"
      and en: "encode (unicode_of salt @ p) = Inr msg"
      and eq: "hexdigest sha256 msg = hashed"
      by auto
    have "split CHR ''$'' stored_hash = [salt, hashed]"
      using split_append_sep [OF a] split_no_sep [OF b] s by simp
    with en eq show ?l
      by (simp add: verify_password_def verify_password_try_def)
  qed
  have count: "verify_password_try sha256 p stored_hash = Inl ValueError
      \<and> verify_password sha256 p stored_hash = False"
    if n: "count_list stored_hash CHR ''$'' \<noteq> 1"
  proof -
    from n have len: "length (split CHR ''$'' stored_hash) \<noteq> 2"
      by (simp add: length_split)
    then have "verify_password_try sha256 p stored_hash = Inl ValueError"
      by (auto simp: verify_password_try_def split: list.splits)
    then show ?thesis by (simp add: verify_password_def)
  qed
  have sur: "verify_password sha256 p stored_hash = False"
    if "\<exists>c \<in> set p. is_surrogate c"
  proof -
    have "encode (unicode_of salt @ p) \<noteq> Inr msg" for salt msg
      using encode_salted_surrogate [OF that, of salt] by simp
    with char show ?thesis by simp
  qed
  from char count sur show ?thesis by blast
qed

theorem verify_password_total_witness:
  "count_list ''abc$de$f'' CHR ''$'' \<noteq> 1
   \<and> verify_password_try (\<lambda>m. m) [112, 119] ''abc$de$f'' = Inl ValueError
   \<and> verify_password (\<lambda>m. m) [112, 119] ''abc$de$f'' = False"
  using verify_password_total [of "''abc$de$f''" "\<lambda>m. m" "[112, 119]"] by simp

section \<open>The bearer header\<close>

lemma lower_char_space_iff: "lower_char c = CHR '' '' \<longleftrightarrow> c = CHR '' ''"
proof (cases "(65 \<le> (of_char c :: nat) \<and> (of_char c :: nat) \<le> 90)
              \<or> (192 \<le> (of_char c :: nat) \<and> (of_char c :: nat) \<le> 222 \<and> (of_char c :: nat) \<noteq> 215)")
  case False
  have "lower_char c = c"
    unfolding lower_char_def Let_def by (rule if_not_P [OF False])
  then show ?thesis by simp
next
  case True
  have l: "lower_char c = char_of ((of_char c :: nat) + 32)"
    unfolding lower_char_def Let_def by (rule if_P [OF True])
  from True have small: "(of_char c :: nat) + 32 < 256" and pos: "(of_char c :: nat) \<noteq> 0"
    by linarith+
  have "char_of ((of_char c :: nat) + 32) \<noteq> CHR '' ''"
  proof
    assume "char_of ((of_char c :: nat) + 32) = CHR '' ''"
    then have "of_char (char_of ((of_char c :: nat) + 32)) = (of_char CHR '' '' :: nat)"
      by simp
    then have "((of_char c :: nat) + 32) mod 256 = 32"
      by (simp only: of_char_of) simp
    with small pos show False by simp
  qed
  moreover from True have "(of_char c :: nat) \<noteq> 32" by linarith
  then have "c \<noteq> CHR '' ''" by auto
  ultimately show ?thesis using l by simp
qed

lemma space_in_lower: "CHR '' '' \<in> set (lower s) \<longleftrightarrow> CHR '' '' \<in> set s"
proof (induction s)
  case Nil
  show ?case by (simp add: lower_def)
next
  case (Cons c cs)
  then show ?case using lower_char_space_iff [of c]
    by (auto simp: lower_def)
qed

lemma split1_at_first:
  assumes "sep \<notin> set x"
  shows "split1 sep (x @ sep # y) = [x, y]"
proof -
  have t: "takeWhile (\<lambda>c. c \<noteq> sep) (x @ sep # y) = x"
    using assms by (induction x) auto
  have d: "dropWhile (\<lambda>c. c \<noteq> sep) (x @ sep # y) = sep # y"
    using assms by (induction x) auto
  show ?thesis by (simp add: split1_def t d)
qed

lemma bearer_token:
  assumes "startswith (lower a) ''bearer ''"
  shows "subscript1 (split1 CHR '' '' a) = Inr (drop 7 a)"
proof -
  from assms obtain r where r: "lower a = ''bearer'' @ CHR '' '' # r"
    by (auto simp: startswith_def prefix_def)
  define x where "x = take 6 a"
  define y where "y = drop 7 a"
  from r have len: "6 < length a"
    using length_map [of lower_char a] by (simp add: lower_def)
  have lx: "lower x = ''bearer''"
    using arg_cong [OF r, of "take 6"] by (simp add: x_def lower_def take_map)
  have "lower a ! 6 = CHR '' ''"
    by (simp add: r)
  then have lc: "lower_char (a ! 6) = CHR '' ''"
    using len by (simp add: lower_def)
  then have "a ! 6 = CHR '' ''" by (simp add: lower_char_space_iff)
  then have a: "a = x @ CHR '' '' # y"
    using id_take_nth_drop [OF len] by (simp add: x_def y_def)
  have "CHR '' '' \<notin> set (lower x)" by (simp add: lx)
  then have "CHR '' '' \<notin> set x" by (simp add: space_in_lower)
  then have "split1 CHR '' '' a = [x, y]"
    unfolding a by (rule split1_at_first)
  then show ?thesis by (simp add: subscript1_def y_def)
qed

text \<open>
  Claim C4, amended. The outcomes of \<open>get_current_user\<close>, in the order of the checks:
  401 \<open>Missing Authorization header\<close> when the header is absent or is the empty
  string; otherwise 401 \<open>Invalid Authorization header\<close> when the lower-cased header
  does not start with \<open>bearer\<close> and a space; otherwise 401 \<open>Invalid or expired token\<close>
  when the rest of the header after that prefix resolves to no user; otherwise the
  resolved user. There is no other outcome: the subscript on the split never raises.
\<close>

theorem get_current_user_outcomes:
  "get_current_user db t h =
     (if h = None \<or> h = Some [] then Inl (HTTPException 401 ''Missing Authorization header'')
      else if \<not> startswith (lower (the h)) ''bearer ''
      then Inl (HTTPException 401 ''Invalid Authorization header'')
      else (case get_user_by_token db t (drop 7 (the h)) of
              None \<Rightarrow> Inl (HTTPException 401 ''Invalid or expired token'')
            | Some user \<Rightarrow> Inr user))"
proof (cases h)
  case None
  then show ?thesis by (simp add: get_current_user_def)
next
  case (Some a)
  show ?thesis
  proof (cases "startswith (lower a) ''bearer ''")
    case False
    with Some show ?thesis by (simp add: get_current_user_def)
  next
    case True
    then have "a \<noteq> []" by (auto simp: startswith_def lower_def)
    with Some True bearer_token [OF True] show ?thesis
      by (simp add: get_current_user_def)
  qed
qed

theorem get_current_user_outcomes_witness:
  "get_current_user (Some example_db) 5 (Some ''Bearer tokA'') = Inr alice"
proof -
  have "(if Some ''Bearer tokA'' = None \<or> Some ''Bearer tokA'' = Some []
         then Inl (HTTPException 401 ''Missing Authorization header'')
         else if \<not> startswith (lower (the (Some ''Bearer tokA''))) ''bearer ''
         then Inl (HTTPException 401 ''Invalid Authorization header'')
         else (case get_user_by_token (Some example_db) 5 (drop 7 (the (Some ''Bearer tokA''))) of
                 None \<Rightarrow> Inl (HTTPException 401 ''Invalid or expired token'')
               | Some user \<Rightarrow> Inr user)) = Inr alice"
    by code_simp
  with get_current_user_outcomes [of "Some example_db" 5 "Some ''Bearer tokA''"]
  show ?thesis by (rule trans)
qed

text \<open>
  Claim C4 as stated fails at the empty header: it is present and does not start with
  the scheme prefix, and the result is the error of the missing header, not the error of
  the malformed one.
\<close>

theorem empty_header_counterexample:
  "\<not> startswith (lower []) ''bearer ''
   \<and> get_current_user None 0 (Some []) = Inl (HTTPException 401 ''Missing Authorization header'')
   \<and> get_current_user None 0 (Some []) \<noteq> Inl (HTTPException 401 ''Invalid Authorization header'')"
  by (simp add: get_current_user_def startswith_def lower_def)

text \<open>
  Claim C10. For every spelling \<open>w\<close> of the scheme word whose lower-casing is
  \<open>bearer\<close> and every token, the header \<open>w\<close>, space, token passes the check of the
  prefix and resolves exactly as the token does, whatever the casing. The token is all
  that follows the first space, so the scheme word with a space and nothing after it is
  well formed and its empty token fails with 401 \<open>Invalid or expired token\<close>, when no
  database is configured and when no stored session has the empty token.
\<close>

theorem bearer_case_insensitive:
  assumes "lower w = ''bearer''"
  shows "get_current_user db t (Some (w @ '' '' @ tok)) =
           (case get_user_by_token db t tok of
              None \<Rightarrow> Inl (HTTPException 401 ''Invalid or expired token'')
            | Some user \<Rightarrow> Inr user)
       \<and> get_current_user None t (Some (w @ '' '')) =
           Inl (HTTPException 401 ''Invalid or expired token'')
       \<and> ((\<forall>s \<in> set (session d). sd_token s \<noteq> []) \<longrightarrow>
           get_current_user (Some d) t (Some (w @ '' '')) =
             Inl (HTTPException 401 ''Invalid or expired token''))"
proof -
  have len: "length w = 6"
    using arg_cong [OF assms, of length] by (simp add: lower_def)
  have sw: "startswith (lower (w @ '' '' @ x)) ''bearer ''" for x
    using assms lower_char_space_iff [of "CHR '' ''"] by (simp add: startswith_def lower_def)
  have gen: "get_current_user db' t (Some (w @ '' '' @ x)) =
           (case get_user_by_token db' t x of
              None \<Rightarrow> Inl (HTTPException 401 ''Invalid or expired token'')
            | Some user \<Rightarrow> Inr user)" for db' x
    using bearer_token [OF sw [of x]] sw [of x] len
    by (simp add: get_current_user_def)
  have a: "get_current_user None t (Some (w @ '' '')) =
           Inl (HTTPException 401 ''Invalid or expired token'')"
    using gen [of None "[]"] by (simp add: get_user_by_token_def)
  have b: "get_current_user (Some d) t (Some (w @ '' '')) =
           Inl (HTTPException 401 ''Invalid or expired token'')"
    if "\<forall>s \<in> set (session d). sd_token s \<noteq> []"
  proof -
    from that have "find_one (\<lambda>s. sd_token s = [] \<and> sd_expires_at s > bson_datetime t)
                      (session d) = None"
      by (auto simp: find_one_def find_None_iff)
    then show ?thesis
      using gen [of "Some d" "[]"] by (simp add: get_user_by_token_def)
  qed
  from gen [of db tok] a b show ?thesis by blast
qed

theorem bearer_case_insensitive_witness:
  "lower ''BEARER'' = ''bearer''
   \<and> get_current_user (Some example_db) 5 (Some ''BEARER tokA'') = Inr alice
   \<and> get_current_user (Some example_db) 5 (Some ''bearer tokA'') = Inr alice
   \<and> get_current_user (Some example_db) 5 (Some ''Bearer '') =
       Inl (HTTPException 401 ''Invalid or expired token'')"
proof -
  have h1: "lower ''BEARER'' = ''bearer''" by code_simp
  have h2: "lower ''bearer'' = ''bearer''" by code_simp
  have h3: "lower ''Bearer'' = ''bearer''" by code_simp
  have g: "get_user_by_token (Some example_db) 5 ''tokA'' = Some alice" by code_simp
  have s: "\<forall>s \<in> set (session example_db). sd_token s \<noteq> []" by code_simp
  from bearer_case_insensitive [OF h1, of "Some example_db" 5 "''tokA''" example_db] g
  have a: "get_current_user (Some example_db) 5 (Some ''BEARER tokA'') = Inr alice" by simp
  from bearer_case_insensitive [OF h2, of "Some example_db" 5 "''tokA''" example_db] g
  have b: "get_current_user (Some example_db) 5 (Some ''bearer tokA'') = Inr alice" by simp
  from bearer_case_insensitive [OF h3, of "Some example_db" 5 "''tokA''" example_db] s
  have c: "get_current_user (Some example_db) 5 (Some ''Bearer '') =
       Inl (HTTPException 401 ''Invalid or expired token'')" by simp
  from h1 a b c show ?thesis by blast
qed

section \<open>Sessions, login, registration and posting\<close>

lemma find_one_append:
  "find_one P (xs @ ys) = (case find_one P xs of None \<Rightarrow> find_one P ys | Some x \<Rightarrow> Some x)"
  by (induction xs) (simp_all add: find_one_def)

lemma find_one_simps:
  "find_one P [] = None"
  "find_one P (x # xs) = (if P x then Some x else find_one P xs)"
  by (simp_all add: find_one_def)

lemma find_one_None_iff: "find_one P xs = None \<longleftrightarrow> (\<forall>x \<in> set xs. \<not> P x)"
  by (auto simp: find_one_def find_None_iff)

lemma bson_datetime_mono: "a \<le> b \<Longrightarrow> bson_datetime a \<le> bson_datetime b"
  by (simp add: bson_datetime_def zdiv_mono1)

lemma bson_datetime_bounds: "bson_datetime t \<le> t \<and> t < bson_datetime t + 1000"
proof -
  have "t = (t div 1000) * 1000 + t mod 1000" by simp
  moreover have "0 \<le> t mod 1000" "t mod 1000 < 1000" by simp_all
  ultimately show ?thesis unfolding bson_datetime_def by linarith
qed

lemma bson_datetime_before:
  assumes "t + 1000 \<le> b"
  shows "bson_datetime t < bson_datetime b"
  using assms bson_datetime_bounds [of t] bson_datetime_bounds [of b] by linarith

lemma create_session_eq:
  "create_session env uid d =
     (token_urlsafe env,
      d\<lparr>session := session d @
           [\<lparr>sd_id = inserted_id (session_doc_env env), sd_user_id = uid,
             sd_token = token_urlsafe env,
             sd_expires_at = bson_datetime (now env + 604800000000),
             sd_created_at = bson_datetime (stamp (session_doc_env env)),
             sd_updated_at = bson_datetime (stamp (session_doc_env env))\<rparr>]\<rparr>)"
  by (simp add: create_session_def create_document_session_def new_Session_def
      timedelta_days_def Let_def)

text \<open>
  Claim C2, amended. \<open>create_session\<close> at clock reading \<open>now\<close> appends one session
  whose \<open>expires_at\<close> is \<open>now\<close> plus seven days, 604800000000 microseconds, as the
  store holds it: rounded down to the millisecond. When the token drawn is not the token
  of a session already stored and the user identifier is a valid identifier of a stored
  user, \<open>get_user_by_token\<close> with that token at clock reading \<open>t\<close> returns that user
  exactly when the millisecond of \<open>t\<close> is strictly before the millisecond of \<open>now\<close>
  plus seven days. So it returns \<open>None\<close> for every \<open>t\<close> from \<open>now\<close> plus seven days
  on, that instant included, and the user for every \<open>t\<close> at least one millisecond
  before \<open>now\<close> plus seven days.
\<close>

theorem session_valid_for_seven_days:
  assumes fresh: "\<forall>s \<in> set (session d). sd_token s \<noteq> token_urlsafe env"
      and valid: "ObjectId_if_valid uid = Some i"
      and user: "find_one (\<lambda>u. binary (au_id u) = i) (authuser d) = Some u"
  shows "fst (create_session env uid d) = token_urlsafe env
       \<and> (\<exists>s. session (snd (create_session env uid d)) = session d @ [s]
              \<and> sd_token s = token_urlsafe env \<and> sd_user_id s = uid
              \<and> sd_expires_at s = bson_datetime (now env + timedelta_days 7))
       \<and> timedelta_days 7 = 604800000000
       \<and> get_user_by_token (Some (snd (create_session env uid d))) t (token_urlsafe env) =
           (if bson_datetime t < bson_datetime (now env + 604800000000)
            then Some u else None)
       \<and> (now env + 604800000000 \<le> t \<longrightarrow>
            get_user_by_token (Some (snd (create_session env uid d))) t (token_urlsafe env)
              = None)
       \<and> (t + 1000 \<le> now env + 604800000000 \<longrightarrow>
            get_user_by_token (Some (snd (create_session env uid d))) t (token_urlsafe env)
              = Some u)"
proof -
  let ?P = "\<lambda>s. sd_token s = token_urlsafe env \<and> sd_expires_at s > bson_datetime t"
  from fresh have old: "find_one ?P (session d) = None"
    by (simp add: find_one_None_iff)
  have g: "get_user_by_token (Some (snd (create_session env uid d))) t (token_urlsafe env) =
           (if bson_datetime t < bson_datetime (now env + 604800000000)
            then Some u else None)"
    using old valid user
    by (simp add: create_session_eq get_user_by_token_def find_one_append find_one_simps)
  have late: "get_user_by_token (Some (snd (create_session env uid d))) t (token_urlsafe env)
              = None" if "now env + 604800000000 \<le> t"
    using g bson_datetime_mono [OF that] by simp
  have early: "get_user_by_token (Some (snd (create_session env uid d))) t (token_urlsafe env)
              = Some u" if "t + 1000 \<le> now env + 604800000000"
    using g bson_datetime_before [OF that] by simp
  have rest: "fst (create_session env uid d) = token_urlsafe env
       \<and> (\<exists>s. session (snd (create_session env uid d)) = session d @ [s]
              \<and> sd_token s = token_urlsafe env \<and> sd_user_id s = uid
              \<and> sd_expires_at s = bson_datetime (now env + timedelta_days 7))
       \<and> timedelta_days 7 = 604800000000"
    by (simp add: create_session_eq timedelta_days_def)
  from rest g late early show ?thesis by blast
qed

theorem session_valid_for_seven_days_witness:
  "ObjectId_if_valid ''0123456789abcdef01234567'' = Some (binary alice_id)
   \<and> find_one (\<lambda>u. binary (au_id u) = binary alice_id) (authuser example_db) = Some alice
   \<and> get_user_by_token
        (Some (snd (create_session example_session_env ''0123456789abcdef01234567'' example_db)))
        604799999100 ''tokB'' = Some alice
   \<and> get_user_by_token
        (Some (snd (create_session example_session_env ''0123456789abcdef01234567'' example_db)))
        604800000100 ''tokB'' = None"
proof -
  have f: "\<forall>s \<in> set (session example_db). sd_token s \<noteq> token_urlsafe example_session_env"
    by code_simp
  have v: "ObjectId_if_valid ''0123456789abcdef01234567'' = Some (binary alice_id)"
    by code_simp
  have u: "find_one (\<lambda>u. binary (au_id u) = binary alice_id) (authuser example_db)
             = Some alice"
    by code_simp
  have e: "token_urlsafe example_session_env = ''tokB''" "now example_session_env = 100"
    by (simp_all add: example_session_env_def)
  have s1: "get_user_by_token
        (Some (snd (create_session example_session_env ''0123456789abcdef01234567'' example_db)))
        604799999100 ''tokB'' = Some alice"
    using session_valid_for_seven_days [OF f v u, of 604799999100]
    by (simp add: e bson_datetime_def)
  have s2: "get_user_by_token
        (Some (snd (create_session example_session_env ''0123456789abcdef01234567'' example_db)))
        604800000100 ''tokB'' = None"
    using session_valid_for_seven_days [OF f v u, of 604800000100]
    by (simp add: e bson_datetime_def)
  from v u s1 s2 show ?thesis by (intro conjI)
qed

text \<open>
  Claim C2 as stated fails inside the last millisecond: a session created at clock
  reading 100 expires at 604800000100, which the store holds as 604800000000; the query
  at 604800000099, after the creation and strictly before creation plus seven days, is
  compared as 604800000000 and finds no session, while the query at the creation time
  does.
\<close>

theorem last_millisecond_counterexample:
  "now example_session_env \<le> 604800000099
   \<and> 604800000099 < now example_session_env + timedelta_days 7
   \<and> get_user_by_token
        (Some (snd (create_session example_session_env ''0123456789abcdef01234567'' example_db)))
        (now example_session_env) ''tokB'' = Some alice
   \<and> get_user_by_token
        (Some (snd (create_session example_session_env ''0123456789abcdef01234567'' example_db)))
        604800000099 ''tokB'' = None"
  by code_simp

text \<open>
  Claim C5. A login whose email matches no stored user and a login whose email is
  stored but whose password fails verification against the stored hash give the same
  result, 401 \<open>Invalid credentials\<close>, and both leave the store as it was, whatever the
  two requests draw from the environment.
\<close>

theorem login_failures_indistinguishable:
  assumes "\<forall>u \<in> set (authuser d). au_email u \<noteq> lq_email p1"
      and "find_one (\<lambda>u. au_email u = lq_email p2) (authuser d) = Some u"
      and "\<not> verify_password sha256 (lq_password p2) (au_password_hash u)"
  shows "login sha256 env1 p1 (Some d) = (Inl (HTTPException 401 ''Invalid credentials''), Some d)
       \<and> login sha256 env2 p2 (Some d) = (Inl (HTTPException 401 ''Invalid credentials''), Some d)"
proof -
  from assms(1) have "find_one (\<lambda>u. au_email u = lq_email p1) (authuser d) = None"
    by (simp add: find_one_None_iff)
  then have "login sha256 env1 p1 (Some d) = (Inl (HTTPException 401 ''Invalid credentials''), Some d)"
    by (simp add: login_def)
  moreover from assms(2,3)
  have "login sha256 env2 p2 (Some d) = (Inl (HTTPException 401 ''Invalid credentials''), Some d)"
    by (simp add: login_def)
  ultimately show ?thesis by simp
qed

theorem login_failures_indistinguishable_witness:
  "find_one (\<lambda>u. au_email u = lq_email \<lparr>lq_email = ''a@x.com'', lq_password = unicode_of ''wrong''\<rparr>)
        (authuser example_db) = Some alice
   \<and> \<not> verify_password (\<lambda>m. m) (lq_password \<lparr>lq_email = ''a@x.com'', lq_password = unicode_of ''wrong''\<rparr>)
         (au_password_hash alice)
   \<and> login (\<lambda>m. m) example_session_env \<lparr>lq_email = ''b@x.com'', lq_password = unicode_of ''pw''\<rparr> (Some example_db)
       = login (\<lambda>m. m) example_session_env \<lparr>lq_email = ''a@x.com'', lq_password = unicode_of ''wrong''\<rparr> (Some example_db)"
proof -
  have a: "\<forall>u \<in> set (authuser example_db).
             au_email u \<noteq> lq_email \<lparr>lq_email = ''b@x.com'', lq_password = unicode_of ''pw''\<rparr>"
    by code_simp
  have b: "find_one (\<lambda>u. au_email u = lq_email \<lparr>lq_email = ''a@x.com'', lq_password = unicode_of ''wrong''\<rparr>)
        (authuser example_db) = Some alice"
    by code_simp
  have c: "\<not> verify_password (\<lambda>m. m) (lq_password \<lparr>lq_email = ''a@x.com'', lq_password = unicode_of ''wrong''\<rparr>)
         (au_password_hash alice)"
    by (simp add: verify_password_def verify_password_try_def unicode_of_def encode_char_def
        hexdigest_def hexlify_def hex_byte_def hex_digits_def alice_def)
  from login_failures_indistinguishable [OF a b c, of example_session_env example_session_env] b c
  show ?thesis by simp
qed


text \<open>
  Claim C6, amended. On a configured store, when a user with the requested email exists
  \<open>register\<close> fails with 400 \<open>Email already registered\<close> and the store is unchanged.
  When none exists and the password has a surrogate among its code points,
  \<open>hash_password\<close> raises: \<open>register\<close> fails with \<open>UnicodeEncodeError\<close> and the
  store is unchanged. When none exists and the password has no surrogate, \<open>register\<close>
  appends exactly one user, with the submitted name and email and with the result of
  \<open>hash_password\<close> on the submitted password as \<open>password_hash\<close> (a hash that
  verifies that password), appends exactly one session, whose \<open>user_id\<close> is the
  identifier of the new user, and returns the token of that session with the submitted
  name and email.
\<close>

theorem register_outcomes:
  "((\<exists>u \<in> set (authuser d). au_email u = rq_email payload) \<longrightarrow>
      register sha256 env payload (Some d) =
        (Inl (HTTPException 400 ''Email already registered''), Some d))
   \<and> ((\<forall>u \<in> set (authuser d). au_email u \<noteq> rq_email payload)
        \<and> (\<exists>c \<in> set (rq_password payload). is_surrogate c) \<longrightarrow>
      register sha256 env payload (Some d) = (Inl UnicodeEncodeError, Some d))
   \<and> ((\<forall>u \<in> set (authuser d). au_email u \<noteq> rq_email payload)
        \<and> (\<forall>c \<in> set (rq_password payload). \<not> is_surrogate c) \<longrightarrow>
      (\<exists>h. hash_password sha256 (token_bytes env) (rq_password payload) = Inr h
         \<and> verify_password sha256 (rq_password payload) h
         \<and> register sha256 env payload (Some d) =
             (Inr \<lparr>lr_token = token_urlsafe (register_session_env env),
                   lr_name = rq_name payload, lr_email = rq_email payload\<rparr>,
              Some (d\<lparr>authuser := authuser d @
                    [\<lparr>au_id = inserted_id (user_doc_env env),
                      au_name = rq_name payload, au_email = rq_email payload,
                      au_password_hash = h,
                      au_created_at = bson_datetime (stamp (user_doc_env env)),
                      au_updated_at = bson_datetime (stamp (user_doc_env env))\<rparr>],
                  session := session d @
                    [\<lparr>sd_id = inserted_id (session_doc_env (register_session_env env)),
                      sd_user_id = str_of_ObjectId (inserted_id (user_doc_env env)),
                      sd_token = token_urlsafe (register_session_env env),
                      sd_expires_at =
                        bson_datetime (now (register_session_env env) + 604800000000),
                      sd_created_at =
                        bson_datetime (stamp (session_doc_env (register_session_env env))),
                      sd_updated_at =
                        bson_datetime (stamp (session_doc_env (register_session_env env)))\<rparr>]\<rparr>))))"
proof (intro conjI impI)
  assume "\<exists>u \<in> set (authuser d). au_email u = rq_email payload"
  then have "find_one (\<lambda>u. au_email u = rq_email payload) (authuser d) \<noteq> None"
    by (simp add: find_one_None_iff)
  then show "register sha256 env payload (Some d) =
        (Inl (HTTPException 400 ''Email already registered''), Some d)"
    by (auto simp: register_def)
next
  assume a: "(\<forall>u \<in> set (authuser d). au_email u \<noteq> rq_email payload)
        \<and> (\<exists>c \<in> set (rq_password payload). is_surrogate c)"
  then have "find_one (\<lambda>u. au_email u = rq_email payload) (authuser d) = None"
    by (simp add: find_one_None_iff)
  moreover from a
  have "hash_password sha256 (token_bytes env) (rq_password payload) = Inl UnicodeEncodeError"
    by (simp add: hash_password_surrogate)
  ultimately show "register sha256 env payload (Some d) = (Inl UnicodeEncodeError, Some d)"
    by (simp add: register_def)
next
  assume a: "(\<forall>u \<in> set (authuser d). au_email u \<noteq> rq_email payload)
        \<and> (\<forall>c \<in> set (rq_password payload). \<not> is_surrogate c)"
  then have f: "find_one (\<lambda>u. au_email u = rq_email payload) (authuser d) = None"
    by (simp add: find_one_None_iff)
  from a verify_of_hash [of "rq_password payload" sha256 "token_bytes env"] obtain h
    where h: "hash_password sha256 (token_bytes env) (rq_password payload) = Inr h"
      and v: "verify_password sha256 (rq_password payload) h"
    by blast
  have r: "register sha256 env payload (Some d) =
             (Inr \<lparr>lr_token = token_urlsafe (register_session_env env),
                   lr_name = rq_name payload, lr_email = rq_email payload\<rparr>,
              Some (d\<lparr>authuser := authuser d @
                    [\<lparr>au_id = inserted_id (user_doc_env env),
                      au_name = rq_name payload, au_email = rq_email payload,
                      au_password_hash = h,
                      au_created_at = bson_datetime (stamp (user_doc_env env)),
                      au_updated_at = bson_datetime (stamp (user_doc_env env))\<rparr>],
                  session := session d @
                    [\<lparr>sd_id = inserted_id (session_doc_env (register_session_env env)),
                      sd_user_id = str_of_ObjectId (inserted_id (user_doc_env env)),
                      sd_token = token_urlsafe (register_session_env env),
                      sd_expires_at =
                        bson_datetime (now (register_session_env env) + 604800000000),
                      sd_created_at =
                        bson_datetime (stamp (session_doc_env (register_session_env env))),
                      sd_updated_at =
                        bson_datetime (stamp (session_doc_env (register_session_env env)))\<rparr>]\<rparr>))"
    using f h
    by (simp add: register_def create_session_eq create_document_authuser_def new_AuthUser_def
        Let_def)
  from h v r show "\<exists>h. hash_password sha256 (token_bytes env) (rq_password payload) = Inr h
         \<and> verify_password sha256 (rq_password payload) h
         \<and> register sha256 env payload (Some d) =
             (Inr \<lparr>lr_token = token_urlsafe (register_session_env env),
                   lr_name = rq_name payload, lr_email = rq_email payload\<rparr>,
              Some (d\<lparr>authuser := authuser d @
                    [\<lparr>au_id = inserted_id (user_doc_env env),
                      au_name = rq_name payload, au_email = rq_email payload,
                      au_password_hash = h,
                      au_created_at = bson_datetime (stamp (user_doc_env env)),
                      au_updated_at = bson_datetime (stamp (user_doc_env env))\<rparr>],
                  session := session d @
                    [\<lparr>sd_id = inserted_id (session_doc_env (register_session_env env)),
                      sd_user_id = str_of_ObjectId (inserted_id (user_doc_env env)),
                      sd_token = token_urlsafe (register_session_env env),
                      sd_expires_at =
                        bson_datetime (now (register_session_env env) + 604800000000),
                      sd_created_at =
                        bson_datetime (stamp (session_doc_env (register_session_env env))),
                      sd_updated_at =
                        bson_datetime (stamp (session_doc_env (register_session_env env)))\<rparr>]\<rparr>))"
    by (intro exI [where x = h] conjI)
qed

theorem register_outcomes_witness:
  "(\<exists>u \<in> set (authuser example_db). au_email u = ''a@x.com'')
   \<and> register (\<lambda>m. m) example_register_env
        \<lparr>rq_name = ''Al'', rq_email = ''a@x.com'', rq_password = [112, 119]\<rparr> (Some example_db)
       = (Inl (HTTPException 400 ''Email already registered''), Some example_db)
   \<and> fst (register (\<lambda>m. m) example_register_env
        \<lparr>rq_name = ''Bob'', rq_email = ''b@x.com'', rq_password = [112, 119]\<rparr> (Some example_db))
       = Inr \<lparr>lr_token = ''tokB'', lr_name = ''Bob'', lr_email = ''b@x.com''\<rparr>"
proof -
  have a: "\<exists>u \<in> set (authuser example_db).
             au_email u = rq_email \<lparr>rq_name = ''Al'', rq_email = ''a@x.com'', rq_password = [112, 119]\<rparr>"
    by code_simp
  have b: "(\<forall>u \<in> set (authuser example_db).
             au_email u \<noteq> rq_email \<lparr>rq_name = ''Bob'', rq_email = ''b@x.com'', rq_password = [112, 119]\<rparr>)
           \<and> (\<forall>c \<in> set (rq_password \<lparr>rq_name = ''Bob'', rq_email = ''b@x.com'',
                                         rq_password = [112, 119]\<rparr>). \<not> is_surrogate c)"
    by (simp add: example_db_def alice_def is_surrogate_def)
  have e: "token_urlsafe (register_session_env example_register_env) = ''tokB''"
    by (simp add: example_register_env_def example_session_env_def)
  from register_outcomes [of example_db
         "\<lparr>rq_name = ''Al'', rq_email = ''a@x.com'', rq_password = [112, 119]\<rparr>"
         "\<lambda>m. m" example_register_env] a
  have 1: "register (\<lambda>m. m) example_register_env
        \<lparr>rq_name = ''Al'', rq_email = ''a@x.com'', rq_password = [112, 119]\<rparr> (Some example_db)
       = (Inl (HTTPException 400 ''Email already registered''), Some example_db)"
    by blast
  from register_outcomes [of example_db
         "\<lparr>rq_name = ''Bob'', rq_email = ''b@x.com'', rq_password = [112, 119]\<rparr>"
         "\<lambda>m. m" example_register_env] b
  obtain h d' where "register (\<lambda>m. m) example_register_env
        \<lparr>rq_name = ''Bob'', rq_email = ''b@x.com'', rq_password = [112, 119]\<rparr> (Some example_db)
       = (Inr \<lparr>lr_token = token_urlsafe (register_session_env example_register_env),
               lr_name = rq_name \<lparr>rq_name = ''Bob'', rq_email = ''b@x.com'', rq_password = [112, 119]\<rparr>,
               lr_email = rq_email \<lparr>rq_name = ''Bob'', rq_email = ''b@x.com'', rq_password = [112, 119]\<rparr>\<rparr>,
          d')"
    by blast
  then have 2: "fst (register (\<lambda>m. m) example_register_env
        \<lparr>rq_name = ''Bob'', rq_email = ''b@x.com'', rq_password = [112, 119]\<rparr> (Some example_db))
       = Inr \<lparr>lr_token = ''tokB'', lr_name = ''Bob'', lr_email = ''b@x.com''\<rparr>"
    by (simp add: e)
  from a 1 2 show ?thesis by simp
qed

text \<open>
  Claim C6 as stated fails at a request with a new email whose password is the
  surrogate D800: no user with that email exists, and \<open>register\<close> neither creates a
  user nor a session but raises and leaves the store as it was.
\<close>

theorem register_surrogate_counterexample:
  "find_one (\<lambda>u. au_email u = ''b@x.com'') (authuser example_db) = None
   \<and> register (\<lambda>m. m) example_register_env
        \<lparr>rq_name = ''Bob'', rq_email = ''b@x.com'', rq_password = [55296]\<rparr> (Some example_db)
       = (Inl UnicodeEncodeError, Some example_db)"
  by (simp add: register_def example_db_def alice_def find_one_simps hash_password_surrogate
      is_surrogate_def)

lemma get_current_user_no_db: "get_current_user None t h \<noteq> Inr user"
  by (simp add: get_current_user_def get_user_by_token_def split: option.splits sum.splits)

text \<open>
  Claim C8. When the content is empty or longer than 2000 characters, constructing the
  \<open>ChatMessage\<close> raises a validation error, so \<open>post_message\<close> returns an exception
  and leaves the store unchanged, whatever the header; for an authenticated user the
  exception is that validation error, raised before any document is created.
\<close>

theorem post_message_rejects_length:
  assumes "length (pq_content payload) = 0 \<or> 2000 < length (pq_content payload)"
  shows "new_ChatMessage uid (pq_content payload) = Inl ValidationError
       \<and> (\<exists>e. post_message t env payload h db = (Inl e, db))
       \<and> (get_current_user db t h = Inr user \<longrightarrow>
            post_message t env payload h db = (Inl ValidationError, db))"
proof -
  have v: "new_ChatMessage x (pq_content payload) = Inl ValidationError" for x
    using assms by (auto simp: new_ChatMessage_def)
  have a: "post_message t env payload h db = (Inl ValidationError, db)"
    if "get_current_user db t h = Inr user"
  proof (cases db)
    case None
    with that get_current_user_no_db [of t h user] show ?thesis by simp
  next
    case (Some d)
    with that show ?thesis by (simp add: post_message_def v)
  qed
  have b: "\<exists>e. post_message t env payload h db = (Inl e, db)"
  proof (cases "get_current_user db t h")
    case (Inl e)
    then show ?thesis by (simp add: post_message_def)
  next
    case (Inr u)
    show ?thesis
    proof (cases db)
      case None
      with Inr get_current_user_no_db [of t h u] show ?thesis by simp
    next
      case (Some d)
      with Inr show ?thesis by (simp add: post_message_def v)
    qed
  qed
  from v [of uid] a b show ?thesis by blast
qed

theorem post_message_rejects_length_witness:
  "(length (pq_content \<lparr>pq_content = []\<rparr>) = 0 \<or> 2000 < length (pq_content \<lparr>pq_content = []\<rparr>))
   \<and> get_current_user (Some example_db) 5 (Some ''Bearer tokA'') = Inr alice
   \<and> post_message 5 example_post_env
        \<lparr>pq_content = []\<rparr> (Some ''Bearer tokA'') (Some example_db)
       = (Inl ValidationError, Some example_db)"
proof -
  have l: "length (pq_content \<lparr>pq_content = []\<rparr>) = 0
           \<or> 2000 < length (pq_content \<lparr>pq_content = []\<rparr>)"
    by simp
  have g: "get_current_user (Some example_db) 5 (Some ''Bearer tokA'') = Inr alice"
    by code_simp
  from post_message_rejects_length [OF l, of "[]" 5
         "example_post_env"
         "Some ''Bearer tokA''" "Some example_db" alice] l g
  show ?thesis by blast
qed

section \<open>The chat feed\<close>

lemma stable_sort_desc_sorts: "sorts_desc stable_sort_desc ms"
proof -
  have "sorted (map (\<lambda>m. - cm_created_at m) (stable_sort_desc ms))"
    by (simp add: stable_sort_desc_def)
  then have "sorted_wrt (\<lambda>a b. cm_created_at a \<ge> cm_created_at b) (stable_sort_desc ms)"
    by (simp add: sorted_map)
  then show ?thesis
    by (simp add: sorts_desc_def stable_sort_desc_def)
qed

lemma sorts_desc_batch:
  fixes n :: nat
  assumes "sorts_desc sort_desc xs"
  defines "ms \<equiv> rev (take n (sort_desc xs))"
  shows "length ms = min n (length xs)"
    and "mset ms \<subseteq># mset xs"
    and "\<forall>m \<in># mset xs - mset ms. \<forall>m' \<in> set ms. cm_created_at m \<le> cm_created_at m'"
    and "sorted (map cm_created_at ms)"
proof -
  let ?ys = "sort_desc xs"
  from assms(1) have ms: "mset ?ys = mset xs"
    and sd: "sorted_wrt (\<lambda>a b. cm_created_at a \<ge> cm_created_at b) ?ys"
    by (simp_all add: sorts_desc_def)
  from ms have "length ?ys = length xs" by (rule mset_eq_length)
  then show "length ms = min n (length xs)" by (simp add: ms_def min.commute)
  have "mset (take n ?ys) + mset (drop n ?ys) = mset ?ys"
    by (simp only: mset_append [symmetric] append_take_drop_id)
  with ms have split: "mset xs = mset ms + mset (drop n ?ys)"
    by (simp add: ms_def)
  then show "mset ms \<subseteq># mset xs" by simp
  from sd have "sorted_wrt (\<lambda>a b. cm_created_at a \<ge> cm_created_at b) (take n ?ys @ drop n ?ys)"
    by simp
  then have cross: "\<forall>a \<in> set (take n ?ys). \<forall>b \<in> set (drop n ?ys). cm_created_at a \<ge> cm_created_at b"
    and tk: "sorted_wrt (\<lambda>a b. cm_created_at a \<ge> cm_created_at b) (take n ?ys)"
    unfolding sorted_wrt_append by blast+
  from split have "mset xs - mset ms = mset (drop n ?ys)" by simp
  with cross show "\<forall>m \<in># mset xs - mset ms. \<forall>m' \<in> set ms. cm_created_at m \<le> cm_created_at m'"
    by (simp add: ms_def)
  from tk show "sorted (map cm_created_at ms)"
    by (simp add: ms_def sorted_map sorted_wrt_rev)
qed


lemma hex_digit_value:
  "\<forall>n \<in> set [0..<16]. hexval (hex_digits ! n) = Some n \<and> \<not> is_space (hex_digits ! n)"
  by code_simp

lemma fromhex_hex_byte:
  "fromhex (hex_byte b @ rest) =
     (case fromhex rest of None \<Rightarrow> None | Some bs \<Rightarrow> Some (b # bs))"
proof -
  have "unat b < 2 ^ 8" using unsigned_less [of b, where ?'a = nat] by simp
  then have hi: "unat b div 16 \<in> set [0..<16]" by simp
  have lo: "unat b mod 16 \<in> set [0..<16]" by simp
  note h = hex_digit_value [THEN bspec, OF hi] hex_digit_value [THEN bspec, OF lo]
  have "(of_nat (16 * (unat b div 16) + unat b mod 16) :: 8 word) = of_nat (unat b)"
    by simp
  then have b: "(of_nat (16 * (unat b div 16) + unat b mod 16) :: 8 word) = b"
    by simp
  have "fromhex (hex_byte b @ rest) =
     (case fromhex rest of
        None \<Rightarrow> None
      | Some bs \<Rightarrow> Some (of_nat (16 * (unat b div 16) + unat b mod 16) # bs))"
    using h by (simp add: hex_byte_def del: of_nat_add of_nat_mult)
  then show ?thesis by (simp only: b)
qed

lemma fromhex_hexlify: "fromhex (hexlify bs) = Some bs"
proof (induction bs)
  case Nil
  show ?case by (simp add: hexlify_def)
next
  case (Cons b bs)
  have "hexlify (b # bs) = hex_byte b @ hexlify bs" by (simp add: hexlify_def)
  with Cons show ?case by (simp add: fromhex_hex_byte)
qed

lemma length_hexlify: "length (hexlify bs) = 2 * length bs"
  by (induction bs) (simp_all add: hexlify_def hex_byte_def)

lemma length_binary: "length (binary i) = 12"
  by (cases i) simp

lemma ObjectId_str_of: "ObjectId (str_of_ObjectId i) = Inr (binary i)"
  by (simp add: ObjectId_def str_of_ObjectId_def length_hexlify length_binary fromhex_hexlify)

lemma ObjectId_if_valid_str_of: "ObjectId_if_valid (str_of_ObjectId i) = Some (binary i)"
  by (simp add: ObjectId_if_valid_def ObjectId_is_valid_def ObjectId_str_of)

lemma ObjectId_if_valid_eq:
  "ObjectId_if_valid s = (case ObjectId s of Inr i \<Rightarrow> Some i | Inl _ \<Rightarrow> None)"
  by (simp add: ObjectId_if_valid_def ObjectId_is_valid_def split: sum.splits)

lemma find_one_Some:
  "find_one P xs = Some x \<Longrightarrow> P x \<and> x \<in> set xs"
  by (auto simp: find_one_def find_Some_iff)

lemma authenticated_user_stored:
  assumes "get_current_user (Some d) t h = Inr user"
  shows "find_one (\<lambda>u. binary (au_id u) = binary (au_id user)) (authuser d) = Some user"
proof -
  from assms obtain tok where g: "get_user_by_token (Some d) t tok = Some user"
    by (auto simp: get_current_user_def split: option.splits if_splits sum.splits)
  obtain sess where s:
    "find_one (\<lambda>s. sd_token s = tok \<and> sd_expires_at s > bson_datetime t) (session d)
       = Some sess"
    using g
    by (cases "find_one (\<lambda>s. sd_token s = tok \<and> sd_expires_at s > bson_datetime t)
                 (session d)")
       (simp_all add: get_user_by_token_def)
  obtain i where i: "ObjectId_if_valid (sd_user_id sess) = Some i"
    using g s
    by (cases "ObjectId_if_valid (sd_user_id sess)") (simp_all add: get_user_by_token_def)
  from g s i have f: "find_one (\<lambda>u. binary (au_id u) = i) (authuser d) = Some user"
    by (simp add: get_user_by_token_def)
  from find_one_Some [OF f] have "binary (au_id user) = i" by simp
  with f show ?thesis by simp
qed

lemma message_view_fields:
  "r_id (message_view d m) = str_of_ObjectId (cm_id m)"
  "r_content (message_view d m) = cm_content m"
  "r_created_at (message_view d m) = cm_created_at m"
  "r_user_name (message_view d m) =
     (case ObjectId_if_valid (cm_user_id m) of
        None \<Rightarrow> ''Unknown''
      | Some i \<Rightarrow> (case find_one (\<lambda>u. binary (au_id u) = i) (authuser d) of
                    None \<Rightarrow> ''Unknown'' | Some u \<Rightarrow> au_name u))"
  by (simp_all add: message_view_def Let_def split: option.splits)

lemma message_view_known_author:
  assumes "ObjectId (cm_user_id m) = Inr i"
      and "find_one (\<lambda>u. binary (au_id u) = i) (authuser d) = Some u"
  shows "r_user_name (message_view d m) = au_name u"
  using assms by (simp add: message_view_fields ObjectId_if_valid_eq)

lemma message_view_missing_author:
  assumes "\<not> ObjectId_is_valid (cm_user_id m)
           \<or> (\<exists>i. ObjectId (cm_user_id m) = Inr i
                  \<and> (\<forall>u \<in> set (authuser d). binary (au_id u) \<noteq> i))"
  shows "r_user_name (message_view d m) = ''Unknown''"
proof (cases "ObjectId_is_valid (cm_user_id m)")
  case False
  then show ?thesis by (simp add: message_view_fields ObjectId_if_valid_def)
next
  case True
  with assms obtain i where i: "ObjectId (cm_user_id m) = Inr i"
    and n: "\<forall>u \<in> set (authuser d). binary (au_id u) \<noteq> i"
    by blast
  from n have "find_one (\<lambda>u. binary (au_id u) = i) (authuser d) = None"
    by (simp add: find_one_None_iff)
  with i show ?thesis by (simp add: message_view_fields ObjectId_if_valid_eq)
qed

text \<open>
  Claim C3. For an authenticated request on a configured store, with the cursor sorted
  by creation time, latest first, \<open>list_messages\<close> returns the views of a list \<open>ms\<close>
  of stored messages such that: \<open>ms\<close> has as many entries as the smaller of 50 and the
  number of stored messages; every stored message left out was created no later than
  every message of \<open>ms\<close>; the result is in ascending order of creation time; and each
  view carries the message's identifier, content and creation time, with the name of the
  user that its \<open>user_id\<close> refers to, or \<open>Unknown\<close> when no stored user has that
  identifier or the \<open>user_id\<close> is no valid identifier.
\<close>

theorem list_messages_latest_fifty:
  assumes auth: "get_current_user (Some d) t h = Inr user"
      and srt: "sorts_desc sort_desc (chatmessage d)"
  shows "\<exists>ms. list_messages sort_desc t h (Some d) = Inr (map (message_view d) ms)
           \<and> length ms = min 50 (length (chatmessage d))
           \<and> mset ms \<subseteq># mset (chatmessage d)
           \<and> (\<forall>m \<in># mset (chatmessage d) - mset ms. \<forall>m' \<in> set ms.
                 cm_created_at m \<le> cm_created_at m')
           \<and> sorted (map r_created_at (map (message_view d) ms))
           \<and> (\<forall>m \<in> set ms.
                 r_id (message_view d m) = str_of_ObjectId (cm_id m)
                 \<and> r_content (message_view d m) = cm_content m
                 \<and> r_created_at (message_view d m) = cm_created_at m
                 \<and> (\<forall>u i. ObjectId (cm_user_id m) = Inr i
                        \<and> find_one (\<lambda>u. binary (au_id u) = i) (authuser d) = Some u
                      \<longrightarrow> r_user_name (message_view d m) = au_name u)
                 \<and> (\<not> ObjectId_is_valid (cm_user_id m)
                        \<or> (\<exists>i. ObjectId (cm_user_id m) = Inr i
                               \<and> (\<forall>u \<in> set (authuser d). binary (au_id u) \<noteq> i))
                      \<longrightarrow> r_user_name (message_view d m) = ''Unknown''))"
proof (intro exI conjI ballI allI impI)
  let ?ms = "rev (take 50 (sort_desc (chatmessage d)))"
  show "list_messages sort_desc t h (Some d) = Inr (map (message_view d) ?ms)"
    using auth by (simp add: list_messages_def rev_map Let_def)
  note b = sorts_desc_batch [OF srt, of 50]
  show "length ?ms = min 50 (length (chatmessage d))" by (rule b(1))
  show "mset ?ms \<subseteq># mset (chatmessage d)" by (rule b(2))
  show "cm_created_at m \<le> cm_created_at m'"
    if "m \<in># mset (chatmessage d) - mset ?ms" "m' \<in> set ?ms" for m m'
    using b(3) that by blast
  show "sorted (map r_created_at (map (message_view d) ?ms))"
    using b(4) by (simp add: message_view_fields comp_def)
  show "r_id (message_view d m) = str_of_ObjectId (cm_id m)" for m
    by (simp add: message_view_fields)
  show "r_content (message_view d m) = cm_content m" for m
    by (simp add: message_view_fields)
  show "r_created_at (message_view d m) = cm_created_at m" for m
    by (simp add: message_view_fields)
  show "r_user_name (message_view d m) = au_name u"
    if "ObjectId (cm_user_id m) = Inr i
        \<and> find_one (\<lambda>u. binary (au_id u) = i) (authuser d) = Some u" for m u i
    using that by (simp add: message_view_known_author)
  show "r_user_name (message_view d m) = ''Unknown''"
    if "\<not> ObjectId_is_valid (cm_user_id m)
        \<or> (\<exists>i. ObjectId (cm_user_id m) = Inr i
               \<and> (\<forall>u \<in> set (authuser d). binary (au_id u) \<noteq> i))" for m
    using that by (rule message_view_missing_author)
qed

theorem list_messages_latest_fifty_witness:
  "get_current_user (Some example_chat_db) 5 (Some ''Bearer tokA'') = Inr alice
   \<and> sorts_desc stable_sort_desc (chatmessage example_chat_db)
   \<and> (\<exists>ms. list_messages stable_sort_desc 5 (Some ''Bearer tokA'') (Some example_chat_db)
               = Inr (map (message_view example_chat_db) ms)
            \<and> length ms = 3
            \<and> sorted (map r_created_at (map (message_view example_chat_db) ms)))"
proof -
  have a: "get_current_user (Some example_chat_db) 5 (Some ''Bearer tokA'') = Inr alice"
    by code_simp
  have s: "sorts_desc stable_sort_desc (chatmessage example_chat_db)"
    by (rule stable_sort_desc_sorts)
  have n: "min 50 (length (chatmessage example_chat_db)) = 3"
    by code_simp
  from list_messages_latest_fifty [OF a s] obtain ms where
    "list_messages stable_sort_desc 5 (Some ''Bearer tokA'') (Some example_chat_db)
       = Inr (map (message_view example_chat_db) ms)"
    "length ms = min 50 (length (chatmessage example_chat_db))"
    "sorted (map r_created_at (map (message_view example_chat_db) ms))"
    by blast
  with n a s show ?thesis by auto
qed

lemma latest_first:
  assumes srt: "sorts_desc sort_desc (xs @ [m])"
      and later: "\<forall>x \<in> set xs. cm_created_at x < cm_created_at m"
  shows "\<exists>rest. sort_desc (xs @ [m]) = m # rest"
proof -
  let ?ys = "sort_desc (xs @ [m])"
  from srt have ms: "mset ?ys = mset (xs @ [m])"
    and sd: "sorted_wrt (\<lambda>a b. cm_created_at a \<ge> cm_created_at b) ?ys"
    by (simp_all add: sorts_desc_def)
  from ms have st: "set ?ys = set (xs @ [m])" by (rule mset_eq_setD)
  then have "?ys \<noteq> []" by auto
  then obtain y rest where ys: "?ys = y # rest" by (cases ?ys) auto
  have "y = m"
  proof (rule ccontr)
    assume ne: "y \<noteq> m"
    from st ys have "y \<in> set (xs @ [m])" by auto
    with ne have "y \<in> set xs" by simp
    with later have lt: "cm_created_at y < cm_created_at m" by simp
    from st ys ne have "m \<in> set rest" by auto
    with sd ys have "cm_created_at y \<ge> cm_created_at m" by simp
    with lt show False by simp
  qed
  with ys show ?thesis by simp
qed

lemma get_user_by_token_chatmessage:
  "get_user_by_token (Some (d\<lparr>chatmessage := ms\<rparr>)) t tok = get_user_by_token (Some d) t tok"
  by (simp add: get_user_by_token_def split: option.splits)

lemma get_current_user_chatmessage:
  "get_current_user (Some (d\<lparr>chatmessage := ms\<rparr>)) t h = get_current_user (Some d) t h"
  by (simp add: get_current_user_def get_user_by_token_chatmessage
      split: option.splits sum.splits)

lemma post_message_success:
  assumes auth: "get_current_user (Some d) t h = Inr user"
      and len: "1 \<le> length (pq_content payload)" "length (pq_content payload) \<le> 2000"
  shows "snd (post_message t env payload h (Some d)) =
           Some (d\<lparr>chatmessage := chatmessage d @
                    [\<lparr>cm_id = inserted_id env, cm_user_id = str_of_ObjectId (au_id user),
                      cm_content = pq_content payload,
                      cm_created_at = bson_datetime (stamp env),
                      cm_updated_at = bson_datetime (stamp env)\<rparr>]\<rparr>)
       \<and> (\<exists>resp. fst (post_message t env payload h (Some d)) = Inr resp
              \<and> r_id resp = str_of_ObjectId (inserted_id env)
              \<and> r_user_name resp = au_name user)"
proof -
  let ?m = "\<lparr>cm_id = inserted_id env, cm_user_id = str_of_ObjectId (au_id user),
             cm_content = pq_content payload,
             cm_created_at = bson_datetime (stamp env),
             cm_updated_at = bson_datetime (stamp env)\<rparr>"
  from len have msg: "new_ChatMessage (str_of_ObjectId (au_id user)) (pq_content payload) =
      Inr \<lparr>m_user_id = str_of_ObjectId (au_id user), content = pq_content payload,
           m_created_at = None, m_updated_at = None\<rparr>"
    by (auto simp: new_ChatMessage_def)
  have "find_one (\<lambda>m. binary (cm_id m) = binary (inserted_id env)) (chatmessage d @ [?m])
          \<noteq> None"
    by (simp add: find_one_None_iff)
  then obtain saved where
    saved: "find_one (\<lambda>m. binary (cm_id m) = binary (inserted_id env)) (chatmessage d @ [?m])
              = Some saved"
    by blast
  have "post_message t env payload h (Some d) =
          (Inr \<lparr>r_id = str_of_ObjectId (inserted_id env), r_user_name = au_name user,
                r_content = cm_content saved, r_created_at = cm_created_at saved\<rparr>,
           Some (d\<lparr>chatmessage := chatmessage d @ [?m]\<rparr>))"
    using auth msg saved
    by (simp add: post_message_def create_document_chatmessage_def Let_def ObjectId_str_of)
  then have a: "snd (post_message t env payload h (Some d)) =
                  Some (d\<lparr>chatmessage := chatmessage d @ [?m]\<rparr>)"
    and b: "fst (post_message t env payload h (Some d)) =
              Inr \<lparr>r_id = str_of_ObjectId (inserted_id env), r_user_name = au_name user,
                   r_content = cm_content saved, r_created_at = cm_created_at saved\<rparr>"
    by simp_all
  from b have "\<exists>resp. fst (post_message t env payload h (Some d)) = Inr resp
              \<and> r_id resp = str_of_ObjectId (inserted_id env)
              \<and> r_user_name resp = au_name user"
    by simp
  with a show ?thesis by (rule conjI)
qed

text \<open>
  Claim C7, amended. An authenticated user posts a content of 1 to 2000 characters, and
  the creation time of the new message, the stamp as the store holds it, rounded down to
  the millisecond, is strictly later than the creation time of every stored message.
  Then the post succeeds, and a listing by an authenticated request on the resulting
  store, with the cursor sorted by creation time, latest first, is not empty and ends
  with the view of the message just posted: its identifier, the registered name of the
  posting user, the posted content and its creation time.
\<close>

theorem posted_message_is_last:
  assumes auth: "get_current_user (Some d) t h = Inr user"
      and len: "1 \<le> length (pq_content payload)" "length (pq_content payload) \<le> 2000"
      and later: "\<forall>m \<in> set (chatmessage d). cm_created_at m < bson_datetime (stamp env)"
      and auth2: "get_current_user (snd (post_message t env payload h (Some d))) t2 h2 = Inr user2"
      and srt: "\<And>ms. sorts_desc sort_desc ms"
  shows "(\<exists>resp. fst (post_message t env payload h (Some d)) = Inr resp)
       \<and> (\<exists>views. list_messages sort_desc t2 h2 (snd (post_message t env payload h (Some d)))
                     = Inr views
              \<and> views \<noteq> []
              \<and> last views = \<lparr>r_id = str_of_ObjectId (inserted_id env),
                               r_user_name = au_name user,
                               r_content = pq_content payload,
                               r_created_at = bson_datetime (stamp env)\<rparr>)"
proof -
  let ?m = "\<lparr>cm_id = inserted_id env, cm_user_id = str_of_ObjectId (au_id user),
             cm_content = pq_content payload,
             cm_created_at = bson_datetime (stamp env),
             cm_updated_at = bson_datetime (stamp env)\<rparr>"
  let ?d' = "d\<lparr>chatmessage := chatmessage d @ [?m]\<rparr>"
  note ps = post_message_success [OF auth len]
  from ps have d': "snd (post_message t env payload h (Some d)) = Some ?d'"
    by (rule conjunct1)
  from ps [THEN conjunct2] have ok: "\<exists>resp. fst (post_message t env payload h (Some d)) = Inr resp"
    by blast
  from later have "\<forall>x \<in> set (chatmessage d). cm_created_at x < cm_created_at ?m" by simp
  from latest_first [OF srt this] obtain rest
    where rest: "sort_desc (chatmessage d @ [?m]) = ?m # rest" by blast
  note u = authenticated_user_stored [OF auth]
  have view: "message_view ?d' ?m =
      \<lparr>r_id = str_of_ObjectId (inserted_id env), r_user_name = au_name user,
       r_content = pq_content payload, r_created_at = bson_datetime (stamp env)\<rparr>"
    using u by (simp add: message_view_def ObjectId_if_valid_str_of)
  from auth2 d' have "get_current_user (Some ?d') t2 h2 = Inr user2" by simp
  then have "list_messages sort_desc t2 h2 (Some ?d') =
      Inr (rev (map (message_view ?d') (take 49 rest)) @ [message_view ?d' ?m])"
    by (simp add: list_messages_def rest Let_def)
  with view d' have "list_messages sort_desc t2 h2 (snd (post_message t env payload h (Some d)))
      = Inr (rev (map (message_view ?d') (take 49 rest)) @
             [\<lparr>r_id = str_of_ObjectId (inserted_id env), r_user_name = au_name user,
               r_content = pq_content payload, r_created_at = bson_datetime (stamp env)\<rparr>])"
    by simp
  then have "\<exists>views. list_messages sort_desc t2 h2 (snd (post_message t env payload h (Some d)))
                     = Inr views
              \<and> views \<noteq> []
              \<and> last views = \<lparr>r_id = str_of_ObjectId (inserted_id env),
                               r_user_name = au_name user,
                               r_content = pq_content payload,
                               r_created_at = bson_datetime (stamp env)\<rparr>"
    by simp
  with ok show ?thesis by (rule conjI)
qed

theorem posted_message_is_last_witness:
  "get_current_user (Some example_chat_db) 55000 (Some ''Bearer tokA'') = Inr alice
   \<and> 1 \<le> length (pq_content example_post) \<and> length (pq_content example_post) \<le> 2000
   \<and> get_current_user
        (snd (post_message 55000 example_post_env example_post (Some ''Bearer tokA'')
               (Some example_chat_db))) 70000 (Some ''bearer tokA'') = Inr alice
   \<and> (\<exists>views. list_messages stable_sort_desc 70000 (Some ''bearer tokA'')
                  (snd (post_message 55000 example_post_env example_post (Some ''Bearer tokA'')
                         (Some example_chat_db))) = Inr views
              \<and> views \<noteq> []
              \<and> last views = \<lparr>r_id = ''0123456789abcdef0123457f'', r_user_name = ''Alice'',
                               r_content = ''hi'', r_created_at = 60000\<rparr>)"
proof -
  have a: "get_current_user (Some example_chat_db) 55000 (Some ''Bearer tokA'') = Inr alice"
    by code_simp
  have l1: "1 \<le> length (pq_content example_post)"
    and l2: "length (pq_content example_post) \<le> 2000"
    by (simp_all add: example_post_def)
  have n: "\<forall>m \<in> set (chatmessage example_chat_db).
             cm_created_at m < bson_datetime (stamp example_post_env)"
    by (simp add: example_chat_db_def example_post_env_def bson_datetime_def)
  have "get_current_user (Some example_chat_db) 70000 (Some ''bearer tokA'') = Inr alice"
    by code_simp
  then have a2: "get_current_user
        (snd (post_message 55000 example_post_env example_post (Some ''Bearer tokA'')
               (Some example_chat_db))) 70000 (Some ''bearer tokA'') = Inr alice"
    using post_message_success [OF a l1 l2, of example_post_env, THEN conjunct1]
    by (simp add: get_current_user_chatmessage)
  have e: "str_of_ObjectId (inserted_id example_post_env) = ''0123456789abcdef0123457f''"
    "bson_datetime (stamp example_post_env) = 60000"
    "pq_content example_post = ''hi''" "au_name alice = ''Alice''"
    by (simp_all add: example_post_env_def example_post_def alice_def bson_datetime_def
        str_of_ObjectId_def hexlify_def hex_byte_def hex_digits_def)
  from posted_message_is_last [OF a l1 l2 n a2 stable_sort_desc_sorts]
  have "\<exists>views. list_messages stable_sort_desc 70000 (Some ''bearer tokA'')
                  (snd (post_message 55000 example_post_env example_post (Some ''Bearer tokA'')
                         (Some example_chat_db))) = Inr views
              \<and> views \<noteq> []
              \<and> last views = \<lparr>r_id = ''0123456789abcdef0123457f'', r_user_name = ''Alice'',
                               r_content = ''hi'', r_created_at = 60000\<rparr>"
    unfolding e by (rule conjunct2)
  with a l1 l2 a2 show ?thesis by (intro conjI)
qed

text \<open>
  Claim C7 as stated fails when the new message is not strictly the latest. In a store
  whose latest message was created at 50000, a post stamped 50400, in the same
  millisecond, is stored with creation time 50000 and the stable sort lists it before
  that message; a post stamped 35000, earlier than two stored messages, is listed second.
  Both posts succeed, and in both listings the last element is the stored message
  \<open>third\<close>, not the message just posted.
\<close>

theorem post_not_last_counterexample:
  "get_current_user (Some example_chat_db) 55000 (Some ''Bearer tokA'') = Inr alice
   \<and> fst (post_message 55000 tied_post_env example_post (Some ''Bearer tokA'')
            (Some example_chat_db))
       = Inr \<lparr>r_id = ''0123456789abcdef0123457f'', r_user_name = ''Alice'',
              r_content = ''hi'', r_created_at = 50000\<rparr>
   \<and> list_messages stable_sort_desc 70000 (Some ''Bearer tokA'')
        (snd (post_message 55000 tied_post_env example_post (Some ''Bearer tokA'')
               (Some example_chat_db)))
       = Inr [\<lparr>r_id = ''0123456789abcdef01234570'', r_user_name = ''Alice'',
                r_content = ''first'', r_created_at = 30000\<rparr>,
              \<lparr>r_id = ''0123456789abcdef01234572'', r_user_name = ''Unknown'',
                r_content = ''second'', r_created_at = 40000\<rparr>,
              \<lparr>r_id = ''0123456789abcdef0123457f'', r_user_name = ''Alice'',
                r_content = ''hi'', r_created_at = 50000\<rparr>,
              \<lparr>r_id = ''0123456789abcdef01234571'', r_user_name = ''Unknown'',
                r_content = ''third'', r_created_at = 50000\<rparr>]
   \<and> fst (post_message 55000 early_post_env example_post (Some ''Bearer tokA'')
            (Some example_chat_db))
       = Inr \<lparr>r_id = ''0123456789abcdef0123457f'', r_user_name = ''Alice'',
              r_content = ''hi'', r_created_at = 35000\<rparr>
   \<and> list_messages stable_sort_desc 70000 (Some ''Bearer tokA'')
        (snd (post_message 55000 early_post_env example_post (Some ''Bearer tokA'')
               (Some example_chat_db)))
       = Inr [\<lparr>r_id = ''0123456789abcdef01234570'', r_user_name = ''Alice'',
                r_content = ''first'', r_created_at = 30000\<rparr>,
              \<lparr>r_id = ''0123456789abcdef0123457f'', r_user_name = ''Alice'',
                r_content = ''hi'', r_created_at = 35000\<rparr>,
              \<lparr>r_id = ''0123456789abcdef01234572'', r_user_name = ''Unknown'',
                r_content = ''second'', r_created_at = 40000\<rparr>,
              \<lparr>r_id = ''0123456789abcdef01234571'', r_user_name = ''Unknown'',
                r_content = ''third'', r_created_at = 50000\<rparr>]"
  by code_simp


end
